theory Spec2Isabelle
  imports Complex_Main
begin

section \<open>Python values, exceptions and the random source\<close>

text \<open>
  The engine of \<^verbatim>\<open>intervention_engine.py\<close> works on dictionaries typed
  \<^verbatim>\<open>Dict[str, Any]\<close>. A value of type \<^verbatim>\<open>Any\<close> is modelled by
  \<open>pyval\<close>: Python integers are unbounded (\<open>int\<close>), a Python float is the real number
  that its binary64 value denotes (NaN and the infinities are left out), booleans are
  numbers as in Python (\<^verbatim>\<open>True == 1\<close>), and strings, \<^verbatim>\<open>None\<close> and members of
  the two enums are the non-numeric values. Comparisons of numbers are exact in Python,
  also between an integer and a float; a subtraction with a float operand is rounded to
  binary64. Every exception the code can raise is a value of \<open>py_error\<close>,
  and a function that may raise returns \<open>py_error + 'a\<close> with \<open>Inl\<close> the exception.
\<close>

datatype InterventionType = IMMEDIATE | ADAPTIVE | SUPPORTIVE | MOTIVATIONAL | COGNITIVE

datatype LearningPhase = INTRODUCTION | PRACTICE | APPLICATION | ASSESSMENT | REVIEW

fun value_of :: "InterventionType \<Rightarrow> string" where
  "value_of IMMEDIATE = ''immediate''"
| "value_of ADAPTIVE = ''adaptive''"
| "value_of SUPPORTIVE = ''supportive''"
| "value_of MOTIVATIONAL = ''motivational''"
| "value_of COGNITIVE = ''cognitive''"

datatype pyval =
    PyInt int
  | PyFloat real
  | PyBool bool
  | PyStr string
  | PyNone
  | PyType InterventionType
  | PyPhase LearningPhase

datatype py_error = TypeError string | KeyError string | IndexError | ValueError

text \<open>
  A dictionary with string keys is an association list read with \<open>map_of\<close>; the empty
  list is the empty dictionary, which Python treats as false in a condition.
\<close>

type_synonym pydict = "(string \<times> pyval) list"

definition and_then :: "py_error + 'a \<Rightarrow> ('a \<Rightarrow> py_error + 'b) \<Rightarrow> py_error + 'b" where
  "and_then m f = (case m of Inl e \<Rightarrow> Inl e | Inr x \<Rightarrow> f x)"

text \<open>The number a value denotes in a comparison or a subtraction, if it is one.\<close>

fun as_num :: "pyval \<Rightarrow> real option" where
  "as_num (PyInt i) = Some (real_of_int i)"
| "as_num (PyFloat r) = Some r"
| "as_num (PyBool b) = Some (if b then 1 else 0)"
| "as_num (PyStr s) = None"
| "as_num PyNone = None"
| "as_num (PyType t) = None"
| "as_num (PyPhase p) = None"

fun type_name :: "pyval \<Rightarrow> string" where
  "type_name (PyInt i) = ''int''"
| "type_name (PyFloat r) = ''float''"
| "type_name (PyBool b) = ''bool''"
| "type_name (PyStr s) = ''str''"
| "type_name PyNone = ''NoneType''"
| "type_name (PyType t) = ''InterventionType''"
| "type_name (PyPhase p) = ''LearningPhase''"

text \<open>
  The message of the \<^verbatim>\<open>TypeError\<close> that CPython raises for an ordering comparison
  of a non-number with an \<^verbatim>\<open>int\<close>, for instance
  \<^verbatim>\<open>'>' not supported between instances of 'str' and 'int'\<close>.
\<close>

definition not_supported :: "string \<Rightarrow> pyval \<Rightarrow> py_error" where
  "not_supported opr v =
     TypeError ([CHR 0x27] @ opr @ [CHR 0x27] @ '' not supported between instances of ''
                @ [CHR 0x27] @ type_name v @ [CHR 0x27] @ '' and 'int'' @ [CHR 0x27])"

definition unsupported_operand :: "pyval \<Rightarrow> py_error" where
  "unsupported_operand v =
     TypeError (''unsupported operand type(s) for -: 'int' and '' @ [CHR 0x27] @ type_name v @ [CHR 0x27])"

text \<open>\<^verbatim>\<open>v > n\<close> and \<^verbatim>\<open>v < n\<close> for an integer literal \<open>n\<close>.\<close>

definition py_gt :: "pyval \<Rightarrow> int \<Rightarrow> py_error + bool" where
  "py_gt v n = (case as_num v of Some r \<Rightarrow> Inr (real_of_int n < r) | None \<Rightarrow> Inl (not_supported ''>'' v))"

definition py_lt :: "pyval \<Rightarrow> int \<Rightarrow> py_error + bool" where
  "py_lt v n = (case as_num v of Some r \<Rightarrow> Inr (r < real_of_int n) | None \<Rightarrow> Inl (not_supported ''<'' v))"

text \<open>
  Rounding to binary64, to the nearest value and a tie to the even significand. The
  argument is scaled by powers of two until its magnitude lies in \<open>[2^52, 2^53)\<close>, or
  until the exponent reaches \<open>-1074\<close>, the exponent of the subnormal numbers; the scaled
  value is rounded to an integer, a tie to the even one, and scaled back. Overflow to
  infinity is not modelled: the only subtraction of the engine is \<^verbatim>\<open>10 - v\<close>, whose
  exact result for a finite binary64 \<open>v\<close> stays below the overflow threshold.
\<close>

definition round_half_even :: "real \<Rightarrow> int" where
  "round_half_even x =
     (let f = \<lfloor>x\<rfloor>; d = x - real_of_int f
      in if d < 1 / 2 then f else if 1 / 2 < d then f + 1 else if even f then f else f + 1)"

function scale_down :: "real \<Rightarrow> int \<Rightarrow> real \<times> int" where
  "scale_down x e = (if 2 ^ 53 \<le> \<bar>x\<bar> then scale_down (x / 2) (e + 1) else (x, e))"
  by pat_completeness auto
termination
proof (relation "measure (\<lambda>(x, e). nat \<lceil>\<bar>x\<bar>\<rceil>)")
  show "wf (measure (\<lambda>(x, e). nat \<lceil>\<bar>x\<bar>\<rceil>))" by simp
next
  fix x :: real and e :: int
  assume a: "2 ^ 53 \<le> \<bar>x\<bar>"
  then have "\<bar>x\<bar> / 2 + 1 \<le> \<bar>x\<bar>" by simp
  then have "\<lceil>\<bar>x\<bar> / 2\<rceil> < \<lceil>\<bar>x\<bar>\<rceil>" by linarith
  moreover have "(1 :: real) \<le> 2 ^ 53" by simp
  with a have "0 < \<lceil>\<bar>x\<bar>\<rceil>" by linarith
  ultimately show "((x / 2, e + 1), (x, e)) \<in> measure (\<lambda>(x, e). nat \<lceil>\<bar>x\<bar>\<rceil>)"
    by simp
qed

function scale_up :: "real \<Rightarrow> int \<Rightarrow> real \<times> int" where
  "scale_up x e = (if \<bar>x\<bar> < 2 ^ 52 \<and> - 1074 < e then scale_up (x * 2) (e - 1) else (x, e))"
  by pat_completeness auto
termination
  by (relation "measure (\<lambda>(x, e). nat (e + 1074))") auto

declare scale_down.simps [simp del] scale_up.simps [simp del]

definition round64 :: "real \<Rightarrow> real" where
  "round64 x =
     (if x = 0 then 0
      else (case scale_down x 0 of (y, e) \<Rightarrow>
             (case scale_up y e of (z, k) \<Rightarrow>
                if 0 \<le> k then real_of_int (round_half_even z) * 2 ^ nat k
                else real_of_int (round_half_even z) / 2 ^ nat (- k))))"

text \<open>
  \<^verbatim>\<open>n - v\<close> for an integer literal \<open>n\<close>: exact when \<open>v\<close> is an integer or a boolean,
  the binary64 subtraction when \<open>v\<close> is a float (the literals of the engine convert to
  binary64 without rounding), a \<^verbatim>\<open>TypeError\<close> otherwise. The result is kept as the
  number it denotes.
\<close>

fun minus_from :: "int \<Rightarrow> pyval \<Rightarrow> real option" where
  "minus_from n (PyInt i) = Some (real_of_int (n - i))"
| "minus_from n (PyFloat r) = Some (round64 (real_of_int n - r))"
| "minus_from n (PyBool b) = Some (real_of_int (n - (if b then 1 else 0)))"
| "minus_from n (PyStr s) = None"
| "minus_from n PyNone = None"
| "minus_from n (PyType t) = None"
| "minus_from n (PyPhase p) = None"

definition py_rsub :: "int \<Rightarrow> pyval \<Rightarrow> py_error + real" where
  "py_rsub n v = (case minus_from n v of Some w \<Rightarrow> Inr w | None \<Rightarrow> Inl (unsupported_operand v))"

text \<open>
  The weight stored in a concern tuple is kept as the number it denotes. The code stores
  the dictionary entry itself; it does so only after the comparison of that entry with
  \<^verbatim>\<open>7\<close> has returned, so the entry is a number there (lemma \<open>py_gt_number\<close> below).
\<close>

definition number :: "pyval \<Rightarrow> py_error + real" where
  "number v = (case as_num v of Some r \<Rightarrow> Inr r | None \<Rightarrow> Inl (not_supported ''>'' v))"

text \<open>\<^verbatim>\<open>d.get(k, default)\<close> and \<^verbatim>\<open>d[k]\<close>.\<close>

definition dict_get :: "pydict \<Rightarrow> string \<Rightarrow> pyval \<Rightarrow> pyval" where
  "dict_get d k dflt = (case map_of d k of Some v \<Rightarrow> v | None \<Rightarrow> dflt)"

definition dict_getitem :: "pydict \<Rightarrow> string \<Rightarrow> py_error + pyval" where
  "dict_getitem d k = (case map_of d k of Some v \<Rightarrow> Inr v | None \<Rightarrow> Inl (KeyError k))"

text \<open>Short-circuit \<^verbatim>\<open>or\<close> of two comparisons: the second is evaluated only if the first is false.\<close>

definition py_or :: "py_error + bool \<Rightarrow> py_error + bool \<Rightarrow> py_error + bool" where
  "py_or a b = (case a of Inl e \<Rightarrow> Inl e | Inr x \<Rightarrow> if x then Inr True else b)"

text \<open>
  \<^verbatim>\<open>max(items, key=lambda x: x[1])\<close>: the first item is the running maximum and a
  later item replaces it only when its key is strictly greater, so the first of several
  maximal items is returned; an empty argument raises \<^verbatim>\<open>ValueError\<close>.
\<close>

fun max_from :: "string \<times> real \<Rightarrow> (string \<times> real) list \<Rightarrow> string \<times> real" where
  "max_from best [] = best"
| "max_from best (x # xs) = max_from (if snd best < snd x then x else best) xs"

definition py_max :: "(string \<times> real) list \<Rightarrow> py_error + string \<times> real" where
  "py_max items = (case items of [] \<Rightarrow> Inl ValueError | x # xs \<Rightarrow> Inr (max_from x xs))"

text \<open>
  The module \<^verbatim>\<open>random\<close> is an input of the model: a stream of raw draws, of which
  each call of \<^verbatim>\<open>_randbelow(n)\<close> consumes one and reduces it below \<open>n\<close>.
  \<^verbatim>\<open>random.choice\<close> indexes its argument with one such draw (and raises
  \<^verbatim>\<open>IndexError\<close> on an empty sequence). \<^verbatim>\<open>random.sample\<close> follows CPython's
  pool algorithm for small populations: draw an index into the pool of items not yet
  selected, take that item, and move the last pool item into the vacancy.
\<close>

type_synonym rng = "nat \<Rightarrow> nat"

definition randbelow :: "nat \<Rightarrow> rng \<Rightarrow> nat \<times> rng" where
  "randbelow n g = (g 0 mod n, \<lambda>i. g (Suc i))"

definition random_choice :: "'a list \<Rightarrow> rng \<Rightarrow> py_error + 'a \<times> rng" where
  "random_choice xs g =
     (if xs = [] then Inl IndexError
      else (case randbelow (length xs) g of (i, g') \<Rightarrow> Inr (xs ! i, g')))"

fun sample_loop :: "nat \<Rightarrow> 'a list \<Rightarrow> rng \<Rightarrow> 'a list \<times> rng" where
  "sample_loop 0 pool g = ([], g)"
| "sample_loop (Suc k) pool g =
     (case randbelow (length pool) g of (j, g') \<Rightarrow>
        (case sample_loop k (butlast (pool[j := last pool])) g' of (rest, g'') \<Rightarrow>
           (pool ! j # rest, g'')))"

definition random_sample :: "'a list \<Rightarrow> nat \<Rightarrow> rng \<Rightarrow> py_error + 'a list \<times> rng" where
  "random_sample population k g =
     (if length population < k then Inl ValueError else Inr (sample_loop k population g))"

text \<open>
  \<^verbatim>\<open>str.title()\<close> on ASCII text: the first letter of every run of letters in upper
  case, the other letters of the run in lower case.
\<close>

definition is_lower :: "char \<Rightarrow> bool" where
  "is_lower c = (97 \<le> (of_char c :: nat) \<and> (of_char c :: nat) \<le> 122)"

definition is_upper :: "char \<Rightarrow> bool" where
  "is_upper c = (65 \<le> (of_char c :: nat) \<and> (of_char c :: nat) \<le> 90)"

fun title_from :: "bool \<Rightarrow> string \<Rightarrow> string" where
  "title_from prev [] = []"
| "title_from prev (c # cs) =
     (if is_lower c then (if prev then c else char_of ((of_char c :: nat) - 32)) # title_from True cs
      else if is_upper c then (if prev then char_of ((of_char c :: nat) + 32) else c) # title_from True cs
      else c # title_from False cs)"

definition title :: "string \<Rightarrow> string" where
  "title s = title_from False s"

text \<open>
  The format \<^verbatim>\<open>f"{x:.0f}"\<close>: \<open>x\<close> rounded to the nearest integer, a tie to the
  even one, in decimal digits, with a minus sign for a negative \<open>x\<close>. The factors of
  the outcome estimation are kept as the decimal fractions of the source; their products
  with 100 are far from a tie, so the digits are those of the binary64 products.
\<close>

fun str_nat :: "nat \<Rightarrow> string" where
  "str_nat n = (if n < 10 then [char_of (48 + n)] else str_nat (n div 10) @ [char_of (48 + n mod 10)])"

declare str_nat.simps [simp del]

definition format_0f :: "real \<Rightarrow> string" where
  "format_0f x = (if x < 0 then ''-'' else []) @ str_nat (nat \<bar>round_half_even x\<bar>)"

section \<open>The intervention engine\<close>

text \<open>
  \<^verbatim>\<open>InterventionEngine.__init__\<close>: the strategy catalog. A Python dictionary keeps
  the order in which its keys were inserted, and \<^verbatim>\<open>_generate_interventions\<close> reads
  the first key of an entry, so the catalog is an association list in the order of its
  declaration.
\<close>

definition intervention_strategies :: "(string \<times> (InterventionType \<times> string list) list) list" where
  "intervention_strategies =
  [
   (''high_frustration'',
     [
      (IMMEDIATE,
        [''Take a 5-minute mindful breathing break'',
         ''Step away and do light physical activity'',
         ''Switch to a completely different subject for 10 minutes'',
         ''Talk through the problem out loud or with someone'']),
      (ADAPTIVE,
        [''Break the current problem into smaller, manageable steps'',
         ''Use visual aids or diagrams to represent the concept'',
         ''Find real-world analogies that relate to your experience'',
         ''Try working backwards from the solution'']),
      (SUPPORTIVE,
        [''Access additional examples of similar problems'',
         ''Watch explanatory videos on the topic'',
         ''Join a study group or find a learning partner'',
         ''Schedule time with a tutor or instructor''])
     ]),
   (''high_confusion'',
     [
      (COGNITIVE,
        [''Create a concept map to organize related ideas'',
         ''Write a summary of what you do understand so far'',
         ''Identify specific points of confusion to focus on'',
         ''Use the 'explain it to a 5-year-old' technique'']),
      (ADAPTIVE,
        [''Return to prerequisite concepts and review'',
         ''Approach the topic from a different angle or method'',
         ''Use multiple learning modalities (visual, audio, kinesthetic)'',
         ''Practice with easier examples before tackling hard ones'']),
      (SUPPORTIVE,
        [''Seek clarification on confusing terminology'',
         ''Find additional resources with different explanations'',
         ''Ask specific questions rather than 'I don't get it'' @ [CHR 0x27],
         ''Work with examples that build complexity gradually''])
     ]),
   (''low_engagement'',
     [
      (MOTIVATIONAL,
        [''Connect the material to your personal interests or goals'',
         ''Set small, achievable milestones with rewards'',
         ''Find the 'why' behind what you're learning'',
         ''Challenge yourself with a fun, related puzzle'']),
      (ADAPTIVE,
        [''Switch to more interactive learning methods'',
         ''Incorporate gamification or competition elements'',
         ''Use multimedia content (videos, podcasts, apps)'',
         ''Apply learning through hands-on projects'']),
      (SUPPORTIVE,
        [''Study with peers or in a group setting'',
         ''Change your learning environment for freshness'',
         ''Set shorter study sessions with clear objectives'',
         ''Track progress visually to see improvement''])
     ]),
   (''low_confidence'',
     [
      (MOTIVATIONAL,
        [''Review recent successes and progress made'',
         ''Start with easier problems to build momentum'',
         ''Focus on effort and improvement rather than perfection'',
         ''Remind yourself that struggle is part of learning'']),
      (SUPPORTIVE,
        [''Practice positive self-talk and growth mindset'',
         ''Break challenges into very small, manageable pieces'',
         ''Celebrate small wins and incremental progress'',
         ''Seek encouragement from mentors or study partners'']),
      (ADAPTIVE,
        [''Use scaffolding techniques with guided practice'',
         ''Work with templates or structured approaches'',
         ''Practice similar problems before trying new ones'',
         ''Build confidence with mastery-based learning''])
     ]),
   (''optimal_state'',
     [
      (ADAPTIVE,
        [''Increase challenge level to maintain optimal difficulty'',
         ''Explore advanced applications of current concepts'',
         ''Teach the concept to someone else to deepen understanding'',
         ''Connect current learning to broader knowledge network'']),
      (SUPPORTIVE,
        [''Document insights and breakthrough moments'',
         ''Apply learning to creative or novel problems'',
         ''Explore related topics that spark curiosity'',
         ''Prepare to help others who might be struggling''])
     ])
  ]"

record timing =
  "when" :: string
  duration :: string
  frequency :: string

record outcome =
  likelihood_of_success :: string
  expected_timeframe :: string
  confidence_level :: string

text \<open>\<^verbatim>\<open>_identify_primary_concern\<close> (the list \<^verbatim>\<open>concerns\<close> is threaded through the four tests).\<close>

definition identify_primary_concern :: "pydict \<Rightarrow> py_error + string" where
  "identify_primary_concern emotion_data =
     and_then (py_gt (dict_get emotion_data ''frustration'' (PyInt 5)) 7) (\<lambda>t1.
     and_then (if t1
               then and_then (dict_getitem emotion_data ''frustration'') (\<lambda>v.
                    and_then (number v) (\<lambda>w. Inr ([] @ [(''high_frustration'', w)])))
               else Inr []) (\<lambda>concerns1.
     and_then (py_gt (dict_get emotion_data ''confusion'' (PyInt 5)) 7) (\<lambda>t2.
     and_then (if t2
               then and_then (dict_getitem emotion_data ''confusion'') (\<lambda>v.
                    and_then (number v) (\<lambda>w. Inr (concerns1 @ [(''high_confusion'', w)])))
               else Inr concerns1) (\<lambda>concerns2.
     and_then (py_lt (dict_get emotion_data ''engagement'' (PyInt 5)) 4) (\<lambda>t3.
     and_then (if t3
               then and_then (dict_getitem emotion_data ''engagement'') (\<lambda>v.
                    and_then (py_rsub 10 v) (\<lambda>w. Inr (concerns2 @ [(''low_engagement'', w)])))
               else Inr concerns2) (\<lambda>concerns3.
     and_then (py_lt (dict_get emotion_data ''confidence'' (PyInt 5)) 4) (\<lambda>t4.
     and_then (if t4
               then and_then (dict_getitem emotion_data ''confidence'') (\<lambda>v.
                    and_then (py_rsub 10 v) (\<lambda>w. Inr (concerns3 @ [(''low_confidence'', w)])))
               else Inr concerns3) (\<lambda>concerns.
     if concerns \<noteq> []
     then and_then (py_max concerns) (\<lambda>m. Inr (fst m))
     else
       and_then (py_gt (dict_get emotion_data ''engagement'' (PyInt 5)) 7) (\<lambda>o1.
       and_then (if o1 then py_gt (dict_get emotion_data ''confidence'' (PyInt 5)) 6 else Inr False) (\<lambda>o2.
       and_then (if o2 then py_lt (dict_get emotion_data ''frustration'' (PyInt 5)) 4 else Inr False) (\<lambda>o3.
       if o3 then Inr ''optimal_state'' else Inr ''neutral_state'')))))))))))"

text \<open>
  \<^verbatim>\<open>_calculate_intervention_urgency\<close>. The critical and the high indicators are
  assigned one after the other before they are tested; the medium indicators are one
  \<^verbatim>\<open>or\<close> chain.
\<close>

definition calculate_intervention_urgency :: "pydict \<Rightarrow> py_error + string" where
  "calculate_intervention_urgency emotion_data =
     and_then (py_gt (dict_get emotion_data ''frustration'' (PyInt 5)) 8) (\<lambda>critical_frustration.
     and_then (py_gt (dict_get emotion_data ''confusion'' (PyInt 5)) 8) (\<lambda>critical_confusion.
     and_then (py_lt (dict_get emotion_data ''engagement'' (PyInt 5)) 2) (\<lambda>critical_disengagement.
     if critical_frustration \<or> critical_confusion \<or> critical_disengagement then Inr ''critical''
     else
       and_then (py_gt (dict_get emotion_data ''frustration'' (PyInt 5)) 6) (\<lambda>high_frustration.
       and_then (py_gt (dict_get emotion_data ''confusion'' (PyInt 5)) 6) (\<lambda>high_confusion.
       and_then (py_lt (dict_get emotion_data ''engagement'' (PyInt 5)) 4) (\<lambda>low_engagement.
       if high_frustration \<or> high_confusion \<or> low_engagement then Inr ''high''
       else
         and_then (py_or (py_gt (dict_get emotion_data ''frustration'' (PyInt 5)) 4)
                  (py_or (py_gt (dict_get emotion_data ''confusion'' (PyInt 5)) 5)
                  (py_or (py_lt (dict_get emotion_data ''engagement'' (PyInt 5)) 6)
                         (py_lt (dict_get emotion_data ''confidence'' (PyInt 5)) 5)))) (\<lambda>moderate_concerns.
         if moderate_concerns then Inr ''medium'' else Inr ''low'')))))))"

text \<open>\<^verbatim>\<open>_generate_intervention_explanation\<close>.\<close>

definition generate_intervention_explanation :: "string \<Rightarrow> InterventionType \<Rightarrow> string \<Rightarrow> string" where
  "generate_intervention_explanation concern intervention_type urgency =
     (let explanations =
        [(''high_frustration'', ''Student showing signs of learning frustration. '' @ title (value_of intervention_type)
            @ '' intervention needed to prevent negative learning spiral.''),
         (''high_confusion'', ''Cognitive confusion detected. '' @ title (value_of intervention_type)
            @ '' support will help clarify concepts and reduce cognitive load.''),
         (''low_engagement'', ''Engagement levels below optimal range. '' @ title (value_of intervention_type)
            @ '' strategies will help re-energize learning process.''),
         (''low_confidence'', ''Confidence indicators suggest student needs encouragement. '' @ title (value_of intervention_type)
            @ '' approach will build self-efficacy.''),
         (''optimal_state'', ''Student in excellent learning state. '' @ title (value_of intervention_type)
            @ '' enhancement will maximize learning potential.'')]
      in case map_of explanations concern of
           Some e \<Rightarrow> e
         | None \<Rightarrow> ''Emotional state analysis suggests '' @ value_of intervention_type
                     @ '' intervention would be beneficial.'')"

text \<open>\<^verbatim>\<open>_define_success_indicators\<close>.\<close>

definition define_success_indicators :: "string \<Rightarrow> string list" where
  "define_success_indicators concern =
     (let indicators =
        [(''high_frustration'',
            [''Decreased facial tension and more relaxed posture'',
             ''Renewed willingness to attempt problems'',
             ''Improved emotional regulation'']),
         (''high_confusion'',
            [''Clearer understanding demonstrated through questions'',
             ''Improved accuracy on practice problems'',
             ''More confident body language'']),
         (''low_engagement'',
            [''Increased attention and focus on materials'',
             ''Active participation in learning activities'',
             ''Positive emotional responses to content'']),
         (''low_confidence'',
            [''Improved posture and self-assured behavior'',
             ''Willingness to attempt challenging problems'',
             ''Positive self-statements about ability''])]
      in case map_of indicators concern of
           Some i \<Rightarrow> i
         | None \<Rightarrow> [''Improved overall emotional state'', ''Better learning engagement''])"

record interventions =
  type :: pyval
  actions :: "string list"
  explanation :: string
  success_indicators :: "string list"

text \<open>
  \<^verbatim>\<open>_generate_interventions\<close>. The phase is accepted and not used. The random
  source is passed in and returned as the calls of \<^verbatim>\<open>random\<close> leave it.
\<close>

definition generate_interventions ::
    "string \<Rightarrow> string \<Rightarrow> pyval \<Rightarrow> rng \<Rightarrow> py_error + interventions \<times> rng" where
  "generate_interventions primary_concern urgency phase g =
     (case map_of intervention_strategies primary_concern of
        None \<Rightarrow>
          Inr (\<lparr>type = PyType SUPPORTIVE,
                actions = [''Continue monitoring student progress''],
                explanation = ''No specific intervention needed at this time'',
                success_indicators = [''Maintained engagement'', ''Steady progress'']\<rparr>, g)
      | Some strategies \<Rightarrow>
          and_then (if urgency = ''critical'' then Inr (IMMEDIATE, g)
                    else if urgency = ''high'' then random_choice [IMMEDIATE, ADAPTIVE] g
                    else if urgency = ''medium'' then random_choice [ADAPTIVE, SUPPORTIVE] g
                    else Inr (SUPPORTIVE, g)) (\<lambda>(candidate, g1).
          and_then (case map_of strategies candidate of
                      Some acts \<Rightarrow> Inr (candidate, acts)
                    | None \<Rightarrow>
                        (case strategies of
                           [] \<Rightarrow> Inl IndexError
                         | (first_type, acts) # rest \<Rightarrow> Inr (first_type, acts))) (\<lambda>(intervention_type, acts).
          and_then (random_sample acts (min 2 (length acts)) g1) (\<lambda>(selected_actions, g2).
          Inr (\<lparr>type = PyType intervention_type,
                actions = selected_actions,
                explanation = generate_intervention_explanation primary_concern intervention_type urgency,
                success_indicators = define_success_indicators primary_concern\<rparr>, g2)))))"

text \<open>
  The timing table of \<^verbatim>\<open>_calculate_intervention_timing\<close> and its last line,
  \<^verbatim>\<open>timing_map.get(urgency, timing_map['medium'])\<close>.
\<close>

definition timing_map :: "(string \<times> timing) list" where
  "timing_map =
     [(''critical'', \<lparr>when = ''immediately'', duration = ''5-10 minutes'', frequency = ''as needed''\<rparr>),
      (''high'', \<lparr>when = ''within next 2-3 minutes'', duration = ''3-5 minutes'', frequency = ''monitor every 5 minutes''\<rparr>),
      (''medium'', \<lparr>when = ''at next natural break'', duration = ''2-3 minutes'', frequency = ''check every 10 minutes''\<rparr>),
      (''low'', \<lparr>when = ''end of current activity'', duration = ''1-2 minutes'', frequency = ''monitor every 15 minutes''\<rparr>)]"

definition timing_map_get :: "string \<Rightarrow> py_error + timing" where
  "timing_map_get urgency =
     (case map_of timing_map ''medium'' of
        None \<Rightarrow> Inl (KeyError ''medium'')
      | Some dflt \<Rightarrow> Inr (case map_of timing_map urgency of Some row \<Rightarrow> row | None \<Rightarrow> dflt))"

text \<open>\<^verbatim>\<open>_calculate_intervention_timing\<close>: the urgency is graded again from the scores.\<close>

definition calculate_intervention_timing :: "pydict \<Rightarrow> pydict option \<Rightarrow> py_error + timing" where
  "calculate_intervention_timing emotion_data learning_context =
     and_then (calculate_intervention_urgency emotion_data) (\<lambda>urgency. timing_map_get urgency)"

text \<open>
  \<^verbatim>\<open>_predict_intervention_outcome\<close>. The table is keyed by enum members; any other
  value of \<^verbatim>\<open>interventions['type']\<close> takes the default of \<^verbatim>\<open>get\<close>.
\<close>

definition improvement_factors :: "(pyval \<times> real) list" where
  "improvement_factors =
     [(PyType IMMEDIATE, 8 / 10),
      (PyType ADAPTIVE, 6 / 10),
      (PyType SUPPORTIVE, 4 / 10),
      (PyType MOTIVATIONAL, 7 / 10),
      (PyType COGNITIVE, 5 / 10)]"

definition predict_intervention_outcome :: "pydict \<Rightarrow> interventions \<Rightarrow> outcome" where
  "predict_intervention_outcome emotion_data interventions =
     (let current_state = dict_get emotion_data ''overall_wellbeing'' (PyInt 0);
          intervention_type = interventions.type interventions;
          predicted_improvement =
            (case map_of improvement_factors intervention_type of Some x \<Rightarrow> x | None \<Rightarrow> 5 / 10)
      in \<lparr>likelihood_of_success = format_0f (predicted_improvement * 100) @ ''%'',
          expected_timeframe = ''5-15 minutes'',
          confidence_level = (if 5 / 10 < predicted_improvement then ''moderate'' else ''low'')\<rparr>)"

record Recommendation =
  primary_concern :: string
  urgency_level :: string
  intervention_type :: pyval
  recommended_actions :: "string list"
  timing :: timing
  explanation :: string
  success_indicators :: "string list"
  learning_phase :: pyval
  predicted_outcome :: outcome

text \<open>
  \<^verbatim>\<open>analyze_intervention_need\<close>. A learning context that is \<^verbatim>\<open>None\<close> or an empty
  dictionary is falsy and gives the phase \<^verbatim>\<open>PRACTICE\<close>.
\<close>

definition analyze_intervention_need ::
    "pydict \<Rightarrow> pydict option \<Rightarrow> rng \<Rightarrow> py_error + Recommendation \<times> rng" where
  "analyze_intervention_need emotion_data learning_context g =
     (let frustration = dict_get emotion_data ''frustration'' (PyInt 5);
          confusion = dict_get emotion_data ''confusion'' (PyInt 5);
          engagement = dict_get emotion_data ''engagement'' (PyInt 5);
          confidence = dict_get emotion_data ''confidence'' (PyInt 5);
          excitement = dict_get emotion_data ''excitement'' (PyInt 5)
      in and_then (identify_primary_concern emotion_data) (\<lambda>concern.
         and_then (calculate_intervention_urgency emotion_data) (\<lambda>urgency.
         let current_phase =
               (case learning_context of
                  None \<Rightarrow> PyPhase PRACTICE
                | Some ctx \<Rightarrow> if ctx = [] then PyPhase PRACTICE
                              else dict_get ctx ''phase'' (PyPhase PRACTICE))
         in and_then (generate_interventions concern urgency current_phase g) (\<lambda>(interventions, g').
            and_then (calculate_intervention_timing emotion_data learning_context) (\<lambda>timing.
            Inr (\<lparr>primary_concern = concern,
                  urgency_level = urgency,
                  intervention_type = interventions.type interventions,
                  recommended_actions = interventions.actions interventions,
                  timing = timing,
                  explanation = interventions.explanation interventions,
                  success_indicators = interventions.success_indicators interventions,
                  learning_phase = current_phase,
                  predicted_outcome = predict_intervention_outcome emotion_data interventions\<rparr>, g'))))))"

section \<open>Notions used to state the properties\<close>

text \<open>
  The number read from a score field: the entry of the dictionary, or \<open>5\<close> when the
  key is absent, as \<^verbatim>\<open>emotion_data.get(k, 5)\<close> reads it; \<open>None\<close> when the entry
  is not a number.
\<close>

definition score :: "pydict \<Rightarrow> string \<Rightarrow> real option" where
  "score emotion_data k = as_num (dict_get emotion_data k (PyInt 5))"

text \<open>
  The distress predicates that fire at the scores \<open>f\<close> (frustration), \<open>c\<close>
  (confusion), \<open>e\<close> (engagement) and \<open>d\<close> (confidence), each with its weight, in
  the order in which they are evaluated. The weights of the last two are \<open>we\<close> and
  \<open>wd\<close>, the values of the Python expressions \<^verbatim>\<open>10 - engagement\<close> and
  \<^verbatim>\<open>10 - confidence\<close> (\<open>minus_from 10\<close> of the two entries).
\<close>

definition fired_concerns ::
    "real \<Rightarrow> real \<Rightarrow> real \<Rightarrow> real \<Rightarrow> real \<Rightarrow> real \<Rightarrow> (string \<times> real) list" where
  "fired_concerns f c e d we wd =
     (if 7 < f then [(''high_frustration'', f)] else []) @
     (if 7 < c then [(''high_confusion'', c)] else []) @
     (if e < 4 then [(''low_engagement'', we)] else []) @
     (if d < 4 then [(''low_confidence'', wd)] else [])"

text \<open>The six concerns and the four urgency levels.\<close>

definition concern_names :: "string set" where
  "concern_names = {''high_frustration'', ''high_confusion'', ''low_engagement'',
                    ''low_confidence'', ''optimal_state'', ''neutral_state''}"

definition urgency_levels :: "string set" where
  "urgency_levels = {''low'', ''medium'', ''high'', ''critical''}"

text \<open>The order \<open>low < medium < high < critical\<close> of the urgency levels.\<close>

definition urgency_rank :: "string \<Rightarrow> nat" where
  "urgency_rank u =
     (if u = ''critical'' then 3 else if u = ''high'' then 2 else if u = ''medium'' then 1 else 0)"

text \<open>A random source whose every raw draw is \<open>0\<close>, for evaluating concrete calls.\<close>

definition no_draws :: rng where
  "no_draws i = 0"

section \<open>Auxiliary facts\<close>

lemma and_then_Inr [simp]: "and_then (Inr x) f = f x"
  by (simp add: and_then_def)

lemma and_then_Inl [simp]: "and_then (Inl e) f = Inl e"
  by (simp add: and_then_def)

lemma py_gt_score: "score ed k = Some r \<Longrightarrow> py_gt (dict_get ed k (PyInt 5)) n = Inr (real_of_int n < r)"
  by (simp add: score_def py_gt_def)

lemma py_lt_score: "score ed k = Some r \<Longrightarrow> py_lt (dict_get ed k (PyInt 5)) n = Inr (r < real_of_int n)"
  by (simp add: score_def py_lt_def)

lemma getitem_score:
  assumes "score ed k = Some r" and "r \<noteq> 5"
  shows "\<exists>v. dict_getitem ed k = Inr v \<and> as_num v = Some r"
  using assms by (auto simp: score_def dict_get_def dict_getitem_def split: option.splits)

lemma weight_high:
  assumes "score ed k = Some r" and "7 < r"
  shows "and_then (dict_getitem ed k) (\<lambda>v. and_then (number v) F) = F r"
proof -
  from assms obtain v where "dict_getitem ed k = Inr v" "as_num v = Some r"
    using getitem_score [of ed k r] by auto
  then show ?thesis by (simp add: number_def)
qed

lemma minus_from_number: "as_num v = Some r \<Longrightarrow> \<exists>w. minus_from n v = Some w"
  by (cases v) simp_all

lemma minus_from_score:
  "score ed k = Some r \<Longrightarrow> \<exists>w. minus_from n (dict_get ed k (PyInt 5)) = Some w"
  unfolding score_def by (rule minus_from_number)

lemma weight_low:
  assumes "score ed k = Some r" and "r < 4"
    and "minus_from 10 (dict_get ed k (PyInt 5)) = Some w"
  shows "and_then (dict_getitem ed k) (\<lambda>v. and_then (py_rsub 10 v) F) = F w"
proof -
  from assms(1,2) obtain v where v: "map_of ed k = Some v"
    by (cases "map_of ed k") (auto simp: score_def dict_get_def)
  with assms(3) have "minus_from 10 v = Some w" by (simp add: dict_get_def)
  with v show ?thesis by (simp add: dict_getitem_def py_rsub_def)
qed

lemma identify_weights:
  assumes f: "score ed ''frustration'' = Some f" and c: "score ed ''confusion'' = Some c"
    and e: "score ed ''engagement'' = Some e" and d: "score ed ''confidence'' = Some d"
    and we: "minus_from 10 (dict_get ed ''engagement'' (PyInt 5)) = Some we"
    and wd: "minus_from 10 (dict_get ed ''confidence'' (PyInt 5)) = Some wd"
  shows "identify_primary_concern ed =
           Inr (case fired_concerns f c e d we wd of
                  [] \<Rightarrow> if 7 < e \<and> 6 < d \<and> f < 4 then ''optimal_state'' else ''neutral_state''
                | x # xs \<Rightarrow> fst (max_from x xs))"
proof -
  note low_e = weight_low [OF e _ we] and low_d = weight_low [OF d _ wd]
  show ?thesis
    unfolding identify_primary_concern_def
    by (simp add: py_gt_score [OF f] py_gt_score [OF c] py_gt_score [OF e] py_gt_score [OF d]
        py_lt_score [OF f] py_lt_score [OF e] py_lt_score [OF d]
        weight_high [OF f] weight_high [OF c] low_e low_d
        fired_concerns_def py_max_def)
qed

lemma identify_numeric:
  assumes f: "score ed ''frustration'' = Some f" and c: "score ed ''confusion'' = Some c"
    and e: "score ed ''engagement'' = Some e" and d: "score ed ''confidence'' = Some d"
  shows "\<exists>we wd. identify_primary_concern ed =
           Inr (case fired_concerns f c e d we wd of
                  [] \<Rightarrow> if 7 < e \<and> 6 < d \<and> f < 4 then ''optimal_state'' else ''neutral_state''
                | x # xs \<Rightarrow> fst (max_from x xs))"
proof -
  from minus_from_score [OF e] obtain we where
    we: "minus_from 10 (dict_get ed ''engagement'' (PyInt 5)) = Some we" by blast
  from minus_from_score [OF d] obtain wd where
    wd: "minus_from 10 (dict_get ed ''confidence'' (PyInt 5)) = Some wd" by blast
  from identify_weights [OF f c e d we wd] show ?thesis by blast
qed

lemma fired_concerns_empty:
  "fired_concerns f c e d we wd = [] \<longleftrightarrow> \<not> (7 < f \<or> 7 < c \<or> e < 4 \<or> d < 4)"
  by (simp add: fired_concerns_def)

lemma py_or_Inr [simp]: "py_or (Inr x) b = (if x then Inr True else b)"
  by (simp add: py_or_def)

lemma urgency_numeric:
  assumes f: "score ed ''frustration'' = Some f" and c: "score ed ''confusion'' = Some c"
    and e: "score ed ''engagement'' = Some e" and d: "score ed ''confidence'' = Some d"
  shows "calculate_intervention_urgency ed =
           Inr (if 8 < f \<or> 8 < c \<or> e < 2 then ''critical''
                else if 6 < f \<or> 6 < c \<or> e < 4 then ''high''
                else if 4 < f \<or> 5 < c \<or> e < 6 \<or> d < 5 then ''medium''
                else ''low'')"
  unfolding calculate_intervention_urgency_def
  by (simp add: py_gt_score [OF f] py_gt_score [OF c] py_lt_score [OF e] py_lt_score [OF d])


lemma py_gt_number: "py_gt v n = Inr b \<Longrightarrow> \<exists>r. as_num v = Some r \<and> number v = Inr r"
  by (simp add: py_gt_def number_def split: option.splits)

section \<open>Concern identification\<close>



section \<open>Urgency grading\<close>

text \<open>
  C2. When the four scores of a mapping are numbers (a missing field reads as 5), urgency
  grading returns the first matching level of the ladder: \<open>critical\<close> if frustration > 8
  or confusion > 8 or engagement < 2; else \<open>high\<close> if frustration > 6 or confusion > 6 or
  engagement < 4; else \<open>medium\<close> if frustration > 4 or confusion > 5 or engagement < 6 or
  confidence < 5; else \<open>low\<close>. The empty mapping grades \<open>medium\<close> and its concern is
  \<open>neutral_state\<close>.
\<close>

theorem calculate_intervention_urgency_ladder:
  assumes "score ed ''frustration'' = Some f" and "score ed ''confusion'' = Some c"
    and "score ed ''engagement'' = Some e" and "score ed ''confidence'' = Some d"
  shows "calculate_intervention_urgency ed =
           Inr (if 8 < f \<or> 8 < c \<or> e < 2 then ''critical''
                else if 6 < f \<or> 6 < c \<or> e < 4 then ''high''
                else if 4 < f \<or> 5 < c \<or> e < 6 \<or> d < 5 then ''medium''
                else ''low'')
         \<and> calculate_intervention_urgency [] = Inr ''medium''
         \<and> identify_primary_concern [] = Inr ''neutral_state''"
proof -
  have s: "score [] k = Some 5" for k
    by (simp add: score_def dict_get_def)
  have "calculate_intervention_urgency [] = Inr ''medium''"
    using urgency_numeric [OF s s s s] by simp
  moreover have "identify_primary_concern [] = Inr ''neutral_state''"
    using identify_numeric [OF s s s s] by (auto simp: fired_concerns_def)
  ultimately show ?thesis
    using urgency_numeric [OF assms] by simp
qed

theorem calculate_intervention_urgency_ladder_witness:
  "score [(''frustration'', PyFloat (13 / 2)), (''confidence'', PyInt 2)] ''frustration'' = Some (13 / 2)
   \<and> score [(''frustration'', PyFloat (13 / 2)), (''confidence'', PyInt 2)] ''confusion'' = Some 5
   \<and> score [(''frustration'', PyFloat (13 / 2)), (''confidence'', PyInt 2)] ''engagement'' = Some 5
   \<and> score [(''frustration'', PyFloat (13 / 2)), (''confidence'', PyInt 2)] ''confidence'' = Some 2
   \<and> calculate_intervention_urgency [(''frustration'', PyFloat (13 / 2)), (''confidence'', PyInt 2)] = Inr ''high''"
proof -
  let ?ed = "[(''frustration'', PyFloat (13 / 2)), (''confidence'', PyInt 2)]"
  have h1: "score ?ed ''frustration'' = Some (13 / 2)" by (simp add: score_def dict_get_def)
  have h2: "score ?ed ''confusion'' = Some 5" by (simp add: score_def dict_get_def)
  have h3: "score ?ed ''engagement'' = Some 5" by (simp add: score_def dict_get_def)
  have h4: "score ?ed ''confidence'' = Some 2" by (simp add: score_def dict_get_def)
  from calculate_intervention_urgency_ladder [OF h1 h2 h3 h4] h1 h2 h3 h4
  show ?thesis by simp
qed

text \<open>
  C8. Urgency grading is monotone in distress: if the scores of \<open>s'\<close> are at least as bad
  as those of \<open>s\<close> (frustration and confusion not lower, engagement and confidence not
  higher; a missing field reads as 5), then the urgency graded at \<open>s'\<close> is not lower than
  the urgency graded at \<open>s\<close> in the order low < medium < high < critical.
\<close>

theorem calculate_intervention_urgency_monotone:
  assumes "score s ''frustration'' = Some f" and "score s ''confusion'' = Some c"
    and "score s ''engagement'' = Some e" and "score s ''confidence'' = Some d"
    and "score s' ''frustration'' = Some f'" and "score s' ''confusion'' = Some c'"
    and "score s' ''engagement'' = Some e'" and "score s' ''confidence'' = Some d'"
    and "f \<le> f'" and "c \<le> c'" and "e' \<le> e" and "d' \<le> d"
  shows "\<exists>u u'. calculate_intervention_urgency s = Inr u
            \<and> calculate_intervention_urgency s' = Inr u'
            \<and> u \<in> {''low'', ''medium'', ''high'', ''critical''}
            \<and> u' \<in> {''low'', ''medium'', ''high'', ''critical''}
            \<and> urgency_rank u \<le> urgency_rank u'"
proof -
  note a = urgency_numeric [OF assms(1-4)]
  note b = urgency_numeric [OF assms(5-8)]
  from assms(9-12) show ?thesis
    unfolding a b by (auto simp: urgency_rank_def)
qed

theorem calculate_intervention_urgency_monotone_witness:
  "score [(''frustration'', PyInt 5)] ''frustration'' = Some 5
   \<and> score [(''frustration'', PyInt 5)] ''confusion'' = Some 5
   \<and> score [(''frustration'', PyInt 5)] ''engagement'' = Some 5
   \<and> score [(''frustration'', PyInt 5)] ''confidence'' = Some 5
   \<and> score [(''frustration'', PyInt 9)] ''frustration'' = Some 9
   \<and> score [(''frustration'', PyInt 9)] ''confusion'' = Some 5
   \<and> score [(''frustration'', PyInt 9)] ''engagement'' = Some 5
   \<and> score [(''frustration'', PyInt 9)] ''confidence'' = Some 5
   \<and> (5 :: real) \<le> 9
   \<and> (\<exists>u u'. calculate_intervention_urgency [(''frustration'', PyInt 5)] = Inr u
            \<and> calculate_intervention_urgency [(''frustration'', PyInt 9)] = Inr u'
            \<and> u \<in> {''low'', ''medium'', ''high'', ''critical''}
            \<and> u' \<in> {''low'', ''medium'', ''high'', ''critical''}
            \<and> urgency_rank u \<le> urgency_rank u')"
proof -
  let ?s = "[(''frustration'', PyInt 5)]" and ?s' = "[(''frustration'', PyInt 9)]"
  have h1: "score ?s ''frustration'' = Some 5" by (simp add: score_def dict_get_def)
  have h2: "score ?s ''confusion'' = Some 5" by (simp add: score_def dict_get_def)
  have h3: "score ?s ''engagement'' = Some 5" by (simp add: score_def dict_get_def)
  have h4: "score ?s ''confidence'' = Some 5" by (simp add: score_def dict_get_def)
  have k1: "score ?s' ''frustration'' = Some 9" by (simp add: score_def dict_get_def)
  have k2: "score ?s' ''confusion'' = Some 5" by (simp add: score_def dict_get_def)
  have k3: "score ?s' ''engagement'' = Some 5" by (simp add: score_def dict_get_def)
  have k4: "score ?s' ''confidence'' = Some 5" by (simp add: score_def dict_get_def)
  have le1: "(5 :: real) \<le> 9" and le2: "(5 :: real) \<le> 5" by simp_all
  from calculate_intervention_urgency_monotone [OF h1 h2 h3 h4 k1 k2 k3 k4 le1 le2 le2 le2]
    h1 h2 h3 h4 k1 k2 k3 k4 le1
  show ?thesis by blast
qed

text \<open>
  C10. When the four scores of a mapping are numbers (a missing field reads as 5) and
  concern identification returns one of the four distress concerns, urgency grading of
  the same mapping returns \<open>medium\<close>, \<open>high\<close> or \<open>critical\<close>, never \<open>low\<close>.
\<close>

theorem distress_concern_not_low_urgency:
  assumes "score ed ''frustration'' = Some f" and "score ed ''confusion'' = Some c"
    and "score ed ''engagement'' = Some e" and "score ed ''confidence'' = Some d"
    and "identify_primary_concern ed = Inr concern"
    and "concern \<in> {''high_frustration'', ''high_confusion'', ''low_engagement'', ''low_confidence''}"
  shows "\<exists>u. calculate_intervention_urgency ed = Inr u
            \<and> u \<in> {''medium'', ''high'', ''critical''} \<and> u \<noteq> ''low''"
proof -
  from identify_numeric [OF assms(1-4)] obtain we wd where
    id: "identify_primary_concern ed =
           Inr (case fired_concerns f c e d we wd of
                  [] \<Rightarrow> if 7 < e \<and> 6 < d \<and> f < 4 then ''optimal_state'' else ''neutral_state''
                | x # xs \<Rightarrow> fst (max_from x xs))" by blast
  have "fired_concerns f c e d we wd \<noteq> []"
  proof
    assume "fired_concerns f c e d we wd = []"
    with id assms(5)
    have "concern = ''optimal_state'' \<or> concern = ''neutral_state''"
      by (simp split: if_splits)
    with assms(6) show False by auto
  qed
  then have "7 < f \<or> 7 < c \<or> e < 4 \<or> d < 4"
    by (simp add: fired_concerns_empty)
  then show ?thesis
    unfolding urgency_numeric [OF assms(1-4)] by auto
qed

theorem distress_concern_not_low_urgency_witness:
  "score [(''confidence'', PyInt 3)] ''frustration'' = Some 5
   \<and> score [(''confidence'', PyInt 3)] ''confusion'' = Some 5
   \<and> score [(''confidence'', PyInt 3)] ''engagement'' = Some 5
   \<and> score [(''confidence'', PyInt 3)] ''confidence'' = Some 3
   \<and> identify_primary_concern [(''confidence'', PyInt 3)] = Inr ''low_confidence''
   \<and> ''low_confidence'' \<in> {''high_frustration'', ''high_confusion'', ''low_engagement'', ''low_confidence''}
   \<and> (\<exists>u. calculate_intervention_urgency [(''confidence'', PyInt 3)] = Inr u
            \<and> u \<in> {''medium'', ''high'', ''critical''} \<and> u \<noteq> ''low'')"
proof -
  let ?ed = "[(''confidence'', PyInt 3)]"
  have h1: "score ?ed ''frustration'' = Some 5" by (simp add: score_def dict_get_def)
  have h2: "score ?ed ''confusion'' = Some 5" by (simp add: score_def dict_get_def)
  have h3: "score ?ed ''engagement'' = Some 5" by (simp add: score_def dict_get_def)
  have h4: "score ?ed ''confidence'' = Some 3" by (simp add: score_def dict_get_def)
  have h5: "identify_primary_concern ?ed = Inr ''low_confidence''"
    using identify_numeric [OF h1 h2 h3 h4] by (auto simp: fired_concerns_def)
  have h6: "''low_confidence'' \<in> {''high_frustration'', ''high_confusion'', ''low_engagement'', ''low_confidence''}"
    by simp
  from distress_concern_not_low_urgency [OF h1 h2 h3 h4 h5 h6] h1 h2 h3 h4 h5 h6
  show ?thesis by blast
qed

section \<open>Strategy selection\<close>

lemma catalog_entry_nonempty:
  "map_of intervention_strategies concern = Some strategies \<Longrightarrow> strategies \<noteq> []"
  by (auto simp: intervention_strategies_def split: if_splits)

lemma catalog_keys:
  "map_of intervention_strategies concern = None \<longleftrightarrow>
     concern \<notin> {''high_frustration'', ''high_confusion'', ''low_engagement'', ''low_confidence'', ''optimal_state''}"
  by (simp add: intervention_strategies_def)

lemma random_choice_pair:
  "random_choice [a, b] g = Inr ([a, b] ! (g 0 mod 2), \<lambda>i. g (Suc i))"
  by (simp add: random_choice_def randbelow_def numeral_2_eq_2)

lemma random_sample_min:
  "random_sample acts (min 2 (length acts)) g = Inr (sample_loop (min 2 (length acts)) acts g)"
  by (simp add: random_sample_def)

lemma generate_interventions_entry:
  assumes "map_of intervention_strategies concern = Some strategies"
  shows "\<exists>iv g'. generate_interventions concern urgency phase g = Inr (iv, g')
           \<and> interventions.type iv =
               PyType (let candidate =
                         (if urgency = ''critical'' then IMMEDIATE
                          else if urgency = ''high'' then [IMMEDIATE, ADAPTIVE] ! (g 0 mod 2)
                          else if urgency = ''medium'' then [ADAPTIVE, SUPPORTIVE] ! (g 0 mod 2)
                          else SUPPORTIVE)
                       in if candidate \<in> fst ` set strategies then candidate else fst (hd strategies))"
proof -
  define candidate where "candidate =
     (if urgency = ''critical'' then IMMEDIATE
      else if urgency = ''high'' then [IMMEDIATE, ADAPTIVE] ! (g 0 mod 2)
      else if urgency = ''medium'' then [ADAPTIVE, SUPPORTIVE] ! (g 0 mod 2)
      else SUPPORTIVE)"
  define g1 where "g1 = (if urgency = ''critical'' then g
      else if urgency = ''high'' then (\<lambda>i. g (Suc i))
      else if urgency = ''medium'' then (\<lambda>i. g (Suc i))
      else g)"
  have pick: "(if urgency = ''critical'' then Inr (IMMEDIATE, g)
               else if urgency = ''high'' then random_choice [IMMEDIATE, ADAPTIVE] g
               else if urgency = ''medium'' then random_choice [ADAPTIVE, SUPPORTIVE] g
               else Inr (SUPPORTIVE, g)) = Inr (candidate, g1)"
    by (simp add: candidate_def g1_def random_choice_pair)
  from assms have ne: "strategies \<noteq> []" by (rule catalog_entry_nonempty)
  show ?thesis
  proof (cases "map_of strategies candidate")
    case None
    then have notin: "candidate \<notin> fst ` set strategies" by (simp add: map_of_eq_None_iff)
    from ne obtain t a rest where st: "strategies = (t, a) # rest"
      by (cases strategies) auto
    have "generate_interventions concern urgency phase g =
            Inr (\<lparr>type = PyType t, actions = fst (sample_loop (min 2 (length a)) a g1),
                   explanation = generate_intervention_explanation concern t urgency,
                   success_indicators = define_success_indicators concern\<rparr>,
                 snd (sample_loop (min 2 (length a)) a g1))"
      unfolding generate_interventions_def pick
      using None by (simp add: assms st random_sample_min split: prod.splits)
    with notin st show ?thesis by (simp add: candidate_def Let_def)
  next
    case (Some a)
    then have isin: "candidate \<in> fst ` set strategies"
      by (metis map_of_eq_None_iff option.distinct(1))
    have "generate_interventions concern urgency phase g =
            Inr (\<lparr>type = PyType candidate, actions = fst (sample_loop (min 2 (length a)) a g1),
                   explanation = generate_intervention_explanation concern candidate urgency,
                   success_indicators = define_success_indicators concern\<rparr>,
                 snd (sample_loop (min 2 (length a)) a g1))"
      unfolding generate_interventions_def pick
      using Some by (simp add: assms random_sample_min split: prod.splits)
    with isin show ?thesis by (simp add: candidate_def Let_def)
  qed
qed

lemma generate_interventions_total:
  "\<exists>iv g' t. generate_interventions concern urgency phase g = Inr (iv, g')
      \<and> interventions.type iv = PyType t"
proof (cases "map_of intervention_strategies concern")
  case None
  then show ?thesis by (simp add: generate_interventions_def)
next
  case (Some strategies)
  from generate_interventions_entry [OF Some, of urgency phase g] show ?thesis by blast
qed

lemma timing_map_get_total: "\<exists>tm. timing_map_get u = Inr tm"
  by (simp add: timing_map_get_def timing_map_def)

lemma predict_type_only:
  "interventions.type iv = interventions.type iv' \<Longrightarrow>
     predict_intervention_outcome ed iv = predict_intervention_outcome ed' iv'"
  by (simp add: predict_intervention_outcome_def Let_def)

lemma analyze_Inr_D:
  assumes "analyze_intervention_need ed lc g = Inr (r, g')"
  shows "\<exists>concern urgency iv tm phase.
           identify_primary_concern ed = Inr concern
         \<and> calculate_intervention_urgency ed = Inr urgency
         \<and> generate_interventions concern urgency phase g = Inr (iv, g')
         \<and> timing_map_get urgency = Inr tm
         \<and> primary_concern r = concern \<and> urgency_level r = urgency
         \<and> intervention_type r = interventions.type iv
         \<and> timing r = tm
         \<and> predicted_outcome r = predict_intervention_outcome ed iv"
  using assms
  unfolding analyze_intervention_need_def calculate_intervention_timing_def Let_def and_then_def
  by (auto split: sum.splits prod.splits)

lemma analyze_Inr_I:
  assumes "identify_primary_concern ed = Inr concern"
    and "calculate_intervention_urgency ed = Inr urgency"
  shows "\<exists>r g' t. analyze_intervention_need ed lc g = Inr (r, g')
           \<and> primary_concern r = concern \<and> urgency_level r = urgency
           \<and> intervention_type r = PyType t"
proof -
  define phase where "phase =
     (case lc of None \<Rightarrow> PyPhase PRACTICE
      | Some ctx \<Rightarrow> if ctx = [] then PyPhase PRACTICE else dict_get ctx ''phase'' (PyPhase PRACTICE))"
  obtain iv g' t where gen: "generate_interventions concern urgency phase g = Inr (iv, g')"
    and ty: "interventions.type iv = PyType t"
    using generate_interventions_total [of concern urgency phase g] by blast
  obtain tm where tm: "timing_map_get urgency = Inr tm"
    using timing_map_get_total [of urgency] by blast
  show ?thesis
    unfolding analyze_intervention_need_def calculate_intervention_timing_def Let_def
    using assms gen tm ty by (simp add: phase_def [symmetric])
qed

lemma analyze_Inl_identify:
  "identify_primary_concern ed = Inl err \<Longrightarrow> analyze_intervention_need ed lc g = Inl err"
  by (simp add: analyze_intervention_need_def Let_def)

text \<open>
  C3. For every concern, urgency, phase and random source: when the concern has no
  catalog entry, strategy selection returns the fixed passive result (type supportive,
  the single action and the explanation below) and leaves the random source untouched;
  among the six concerns this is exactly \<open>neutral_state\<close>. Otherwise the resulting type
  is the candidate mapped from the urgency (critical: immediate; high: the element of
  [immediate, adaptive] indexed by one draw below 2; medium: the element of
  [adaptive, supportive] indexed by one draw below 2; anything else: supportive), replaced
  by the first type declared in the concern's catalog entry when the candidate is not a
  key of that entry. Each of the two candidates corresponds to exactly one of the two
  values of the draw, so a uniform draw gives a uniform choice.
\<close>

theorem generate_interventions_type_selection:
  "(map_of intervention_strategies concern = None \<longrightarrow>
      generate_interventions concern urgency phase g =
        Inr (\<lparr>type = PyType SUPPORTIVE,
              actions = [''Continue monitoring student progress''],
              explanation = ''No specific intervention needed at this time'',
              success_indicators = [''Maintained engagement'', ''Steady progress'']\<rparr>, g))
   \<and> (\<forall>strategies. map_of intervention_strategies concern = Some strategies \<longrightarrow>
        (\<exists>iv g'. generate_interventions concern urgency phase g = Inr (iv, g')
           \<and> interventions.type iv =
               PyType (let candidate =
                         (if urgency = ''critical'' then IMMEDIATE
                          else if urgency = ''high'' then [IMMEDIATE, ADAPTIVE] ! (g 0 mod 2)
                          else if urgency = ''medium'' then [ADAPTIVE, SUPPORTIVE] ! (g 0 mod 2)
                          else SUPPORTIVE)
                       in if candidate \<in> fst ` set strategies then candidate else fst (hd strategies))))
   \<and> (concern \<in> {''high_frustration'', ''high_confusion'', ''low_engagement'', ''low_confidence'',
                     ''optimal_state'', ''neutral_state''} \<longrightarrow>
        (map_of intervention_strategies concern = None \<longleftrightarrow> concern = ''neutral_state''))"
proof (intro conjI impI allI)
  assume "map_of intervention_strategies concern = None"
  then show "generate_interventions concern urgency phase g =
        Inr (\<lparr>type = PyType SUPPORTIVE,
              actions = [''Continue monitoring student progress''],
              explanation = ''No specific intervention needed at this time'',
              success_indicators = [''Maintained engagement'', ''Steady progress'']\<rparr>, g)"
    by (simp add: generate_interventions_def)
next
  fix strategies
  assume "map_of intervention_strategies concern = Some strategies"
  then show "\<exists>iv g'. generate_interventions concern urgency phase g = Inr (iv, g')
           \<and> interventions.type iv =
               PyType (let candidate =
                         (if urgency = ''critical'' then IMMEDIATE
                          else if urgency = ''high'' then [IMMEDIATE, ADAPTIVE] ! (g 0 mod 2)
                          else if urgency = ''medium'' then [ADAPTIVE, SUPPORTIVE] ! (g 0 mod 2)
                          else SUPPORTIVE)
                       in if candidate \<in> fst ` set strategies then candidate else fst (hd strategies))"
    by (rule generate_interventions_entry)
next
  assume "concern \<in> {''high_frustration'', ''high_confusion'', ''low_engagement'', ''low_confidence'',
                     ''optimal_state'', ''neutral_state''}"
  then show "map_of intervention_strategies concern = None \<longleftrightarrow> concern = ''neutral_state''"
    unfolding catalog_keys by auto
qed

lemma high_confusion_entry:
  "map_of intervention_strategies ''high_confusion'' =
     Some [(COGNITIVE,
             [''Create a concept map to organize related ideas'',
              ''Write a summary of what you do understand so far'',
              ''Identify specific points of confusion to focus on'',
              ''Use the 'explain it to a 5-year-old' technique'']),
           (ADAPTIVE,
             [''Return to prerequisite concepts and review'',
              ''Approach the topic from a different angle or method'',
              ''Use multiple learning modalities (visual, audio, kinesthetic)'',
              ''Practice with easier examples before tackling hard ones'']),
           (SUPPORTIVE,
             [''Seek clarification on confusing terminology'',
              ''Find additional resources with different explanations'',
              ''Ask specific questions rather than 'I don't get it'' @ [CHR 0x27],
              ''Work with examples that build complexity gradually''])]"
  by (simp add: intervention_strategies_def)

theorem generate_interventions_type_selection_witness:
  "map_of intervention_strategies ''neutral_state'' = None
   \<and> ''neutral_state'' \<in> {''high_frustration'', ''high_confusion'', ''low_engagement'', ''low_confidence'',
                     ''optimal_state'', ''neutral_state''}
   \<and> generate_interventions ''neutral_state'' ''medium'' (PyPhase PRACTICE) no_draws =
        Inr (\<lparr>type = PyType SUPPORTIVE,
              actions = [''Continue monitoring student progress''],
              explanation = ''No specific intervention needed at this time'',
              success_indicators = [''Maintained engagement'', ''Steady progress'']\<rparr>, no_draws)
   \<and> map_of intervention_strategies ''high_confusion'' \<noteq> None
   \<and> (\<exists>iv g'. generate_interventions ''high_confusion'' ''high'' (PyPhase PRACTICE) no_draws = Inr (iv, g')
           \<and> interventions.type iv = PyType COGNITIVE)"
proof -
  note thm1 = generate_interventions_type_selection
    [of "''neutral_state''" "''medium''" "PyPhase PRACTICE" no_draws]
  note thm2 = generate_interventions_type_selection
    [of "''high_confusion''" "''high''" "PyPhase PRACTICE" no_draws]
  have n: "map_of intervention_strategies ''neutral_state'' = None"
    using thm1 by simp
  from thm1 n have a: "generate_interventions ''neutral_state'' ''medium'' (PyPhase PRACTICE) no_draws =
        Inr (\<lparr>type = PyType SUPPORTIVE,
              actions = [''Continue monitoring student progress''],
              explanation = ''No specific intervention needed at this time'',
              success_indicators = [''Maintained engagement'', ''Steady progress'']\<rparr>, no_draws)"
    by blast
  from thm2 high_confusion_entry
  have b: "\<exists>iv g'. generate_interventions ''high_confusion'' ''high'' (PyPhase PRACTICE) no_draws = Inr (iv, g')
           \<and> interventions.type iv = PyType COGNITIVE"
    by (simp add: no_draws_def)
  from n a b high_confusion_entry show ?thesis by simp
qed

section \<open>Timing\<close>

text \<open>
  C6. The timing computed for a mapping is the row that the timing table holds for the
  urgency graded from that mapping: two mappings of equal urgency get the same timing,
  whatever the learning context. The row of \<open>critical\<close> is immediately / 5-10 minutes /
  as needed, and a key outside critical, high, medium and low reads the row of
  \<open>medium\<close>. The lookup is a function of its key alone, so repeating it gives the same
  row.
\<close>

theorem calculate_intervention_timing_lookup:
  "(\<forall>u. calculate_intervention_urgency ed = Inr u \<longrightarrow>
        calculate_intervention_timing ed lc = timing_map_get u)
   \<and> (calculate_intervention_urgency ed = calculate_intervention_urgency ed' \<longrightarrow>
        calculate_intervention_timing ed lc = calculate_intervention_timing ed' lc')
   \<and> timing_map_get ''critical'' =
        Inr \<lparr>when = ''immediately'', duration = ''5-10 minutes'', frequency = ''as needed''\<rparr>
   \<and> timing_map_get ''medium'' =
        Inr \<lparr>when = ''at next natural break'', duration = ''2-3 minutes'',
             frequency = ''check every 10 minutes''\<rparr>
   \<and> (v \<notin> {''critical'', ''high'', ''medium'', ''low''} \<longrightarrow>
        timing_map_get v = timing_map_get ''medium'')"
  by (simp add: calculate_intervention_timing_def timing_map_get_def timing_map_def)

theorem calculate_intervention_timing_lookup_witness:
  "calculate_intervention_urgency [] = Inr ''medium''
   \<and> calculate_intervention_urgency [] = calculate_intervention_urgency [(''confidence'', PyInt 4)]
   \<and> ''urgent'' \<notin> {''critical'', ''high'', ''medium'', ''low''}
   \<and> calculate_intervention_timing [] None = timing_map_get ''medium''
   \<and> calculate_intervention_timing [] None =
         calculate_intervention_timing [(''confidence'', PyInt 4)] (Some [(''phase'', PyPhase REVIEW)])
   \<and> timing_map_get ''urgent'' =
        Inr \<lparr>when = ''at next natural break'', duration = ''2-3 minutes'',
             frequency = ''check every 10 minutes''\<rparr>"
proof -
  have s: "score [] k = Some 5" for k
    by (simp add: score_def dict_get_def)
  have u1: "calculate_intervention_urgency [] = Inr ''medium''"
    using urgency_numeric [OF s s s s] by simp
  have u2: "calculate_intervention_urgency [(''confidence'', PyInt 4)] = Inr ''medium''"
    using urgency_numeric [of "[(''confidence'', PyInt 4)]" 5 5 5 4]
    by (simp add: score_def dict_get_def)
  have nin: "''urgent'' \<notin> {''critical'', ''high'', ''medium'', ''low''}" by simp
  note inst = calculate_intervention_timing_lookup
    [of "[]" None "[(''confidence'', PyInt 4)]" "Some [(''phase'', PyPhase REVIEW)]" "''urgent''"]
  note keyed = inst [THEN conjunct1]
  note same = inst [THEN conjunct2, THEN conjunct1]
  note medium = inst [THEN conjunct2, THEN conjunct2, THEN conjunct2, THEN conjunct1]
  note fallback = inst [THEN conjunct2, THEN conjunct2, THEN conjunct2, THEN conjunct2]
  from u1 u2 have d: "calculate_intervention_urgency [] = calculate_intervention_urgency [(''confidence'', PyInt 4)]"
    by simp
  from keyed u1 have a: "calculate_intervention_timing [] None = timing_map_get ''medium''"
    by blast
  from same d have b: "calculate_intervention_timing [] None =
      calculate_intervention_timing [(''confidence'', PyInt 4)] (Some [(''phase'', PyPhase REVIEW)])"
    by blast
  from fallback nin have "timing_map_get ''urgent'' = timing_map_get ''medium''"
    by blast
  then have c: "timing_map_get ''urgent'' =
        Inr \<lparr>when = ''at next natural break'', duration = ''2-3 minutes'',
             frequency = ''check every 10 minutes''\<rparr>"
    by (rule trans) (rule medium)
  from u1 d nin a b c show ?thesis by blast
qed

section \<open>Outcome estimation\<close>

lemma format_0f_percent:
  "format_0f 80 = ''80''" "format_0f 70 = ''70''" "format_0f 60 = ''60''"
  "format_0f 50 = ''50''" "format_0f 40 = ''40''"
  by code_simp+

text \<open>
  C5. Outcome estimation reads only the intervention type. Its factor is 0.8 for
  immediate, 0.7 for motivational, 0.6 for adaptive, 0.5 for cognitive, 0.4 for
  supportive, and the default 0.5 for an unknown type, that is any value that is not a
  member of the enum (for instance the string \<open>immediate\<close>). The likelihood is the factor
  times 100 formatted without decimals and followed by a percent sign, the expected time
  frame is the constant 5 to 15 minutes (the string \<open>5-15 minutes\<close>), and the
  confidence level is \<open>moderate\<close> exactly when the factor exceeds 0.5 and \<open>low\<close>
  otherwise. Type supportive yields \<open>40%\<close> and \<open>low\<close>.
\<close>

theorem predict_intervention_outcome_table:
  "predict_intervention_outcome ed iv =
     (let x = (case interventions.type iv of
                 PyType IMMEDIATE \<Rightarrow> 8 / 10
               | PyType MOTIVATIONAL \<Rightarrow> 7 / 10
               | PyType ADAPTIVE \<Rightarrow> 6 / 10
               | PyType COGNITIVE \<Rightarrow> 5 / 10
               | PyType SUPPORTIVE \<Rightarrow> 4 / 10
               | _ \<Rightarrow> 5 / 10)
      in \<lparr>likelihood_of_success = format_0f (x * 100) @ ''%'',
          expected_timeframe = ''5-15 minutes'',
          confidence_level = (if 5 / 10 < x then ''moderate'' else ''low'')\<rparr>)
   \<and> predict_intervention_outcome ed (iv\<lparr>type := PyType IMMEDIATE\<rparr>) =
        \<lparr>likelihood_of_success = ''80%'', expected_timeframe = ''5-15 minutes'', confidence_level = ''moderate''\<rparr>
   \<and> predict_intervention_outcome ed (iv\<lparr>type := PyType MOTIVATIONAL\<rparr>) =
        \<lparr>likelihood_of_success = ''70%'', expected_timeframe = ''5-15 minutes'', confidence_level = ''moderate''\<rparr>
   \<and> predict_intervention_outcome ed (iv\<lparr>type := PyType ADAPTIVE\<rparr>) =
        \<lparr>likelihood_of_success = ''60%'', expected_timeframe = ''5-15 minutes'', confidence_level = ''moderate''\<rparr>
   \<and> predict_intervention_outcome ed (iv\<lparr>type := PyType COGNITIVE\<rparr>) =
        \<lparr>likelihood_of_success = ''50%'', expected_timeframe = ''5-15 minutes'', confidence_level = ''low''\<rparr>
   \<and> predict_intervention_outcome ed (iv\<lparr>type := PyType SUPPORTIVE\<rparr>) =
        \<lparr>likelihood_of_success = ''40%'', expected_timeframe = ''5-15 minutes'', confidence_level = ''low''\<rparr>
   \<and> predict_intervention_outcome ed (iv\<lparr>type := PyStr ''immediate''\<rparr>) =
        \<lparr>likelihood_of_success = ''50%'', expected_timeframe = ''5-15 minutes'', confidence_level = ''low''\<rparr>"
proof -
  have general: "predict_intervention_outcome ed iv =
     (let x = (case interventions.type iv of
                 PyType IMMEDIATE \<Rightarrow> 8 / 10
               | PyType MOTIVATIONAL \<Rightarrow> 7 / 10
               | PyType ADAPTIVE \<Rightarrow> 6 / 10
               | PyType COGNITIVE \<Rightarrow> 5 / 10
               | PyType SUPPORTIVE \<Rightarrow> 4 / 10
               | _ \<Rightarrow> 5 / 10)
      in \<lparr>likelihood_of_success = format_0f (x * 100) @ ''%'',
          expected_timeframe = ''5-15 minutes'',
          confidence_level = (if 5 / 10 < x then ''moderate'' else ''low'')\<rparr>)" for iv
  proof (cases "interventions.type iv")
    case (PyType t)
    then show ?thesis
      by (cases t) (simp_all add: predict_intervention_outcome_def improvement_factors_def)
  qed (simp_all add: predict_intervention_outcome_def improvement_factors_def)
  show ?thesis
    unfolding general [of "iv\<lparr>type := v\<rparr>" for v]
    by (simp add: general format_0f_percent)
qed

section \<open>The assembled recommendation\<close>

text \<open>
  C7. Every recommendation that \<^verbatim>\<open>analyze_intervention_need\<close> returns is consistent:
  its timing is the row of the timing table for the urgency level it reports (and is what
  the timing computation returns for the scores), and its predicted outcome is the
  outcome estimated for the intervention type it reports, whichever scores and other
  fields the estimation is given.
\<close>

theorem analyze_intervention_need_consistent:
  assumes "analyze_intervention_need ed lc g = Inr (r, g')"
  shows "timing_map_get (urgency_level r) = Inr (timing r)
         \<and> calculate_intervention_timing ed lc = Inr (timing r)
         \<and> (\<forall>ed' iv. interventions.type iv = intervention_type r \<longrightarrow>
                predict_intervention_outcome ed' iv = predicted_outcome r)"
proof -
  from analyze_Inr_D [OF assms] obtain concern urgency iv tm phase where
    u: "calculate_intervention_urgency ed = Inr urgency"
    and tm: "timing_map_get urgency = Inr tm"
    and r: "urgency_level r = urgency" "intervention_type r = interventions.type iv" "timing r = tm"
      "predicted_outcome r = predict_intervention_outcome ed iv"
    by blast
  from u tm r have "calculate_intervention_timing ed lc = Inr (timing r)"
    by (simp add: calculate_intervention_timing_def)
  moreover have "predict_intervention_outcome ed' iv' = predicted_outcome r"
    if "interventions.type iv' = intervention_type r" for ed' iv'
  proof -
    from that r(2) have "interventions.type iv' = interventions.type iv" by simp
    then have "predict_intervention_outcome ed' iv' = predict_intervention_outcome ed iv"
      by (rule predict_type_only)
    with r(4) show ?thesis by simp
  qed
  moreover from tm r(1,3) have "timing_map_get (urgency_level r) = Inr (timing r)" by simp
  ultimately show ?thesis by blast
qed

theorem analyze_intervention_need_consistent_witness:
  "\<exists>r g'. analyze_intervention_need [] None no_draws = Inr (r, g')
      \<and> timing_map_get (urgency_level r) = Inr (timing r)
      \<and> calculate_intervention_timing [] None = Inr (timing r)
      \<and> (\<forall>ed' iv. interventions.type iv = intervention_type r \<longrightarrow>
             predict_intervention_outcome ed' iv = predicted_outcome r)"
proof -
  have s: "score [] k = Some 5" for k
    by (simp add: score_def dict_get_def)
  have c: "identify_primary_concern [] = Inr ''neutral_state''"
    using identify_numeric [OF s s s s] by (auto simp: fired_concerns_def)
  have u: "calculate_intervention_urgency [] = Inr ''medium''"
    using urgency_numeric [OF s s s s] by simp
  from analyze_Inr_I [OF c u, of None no_draws]
  obtain r g' where a: "analyze_intervention_need [] None no_draws = Inr (r, g')" by blast
  from a analyze_intervention_need_consistent [OF a] show ?thesis by blast
qed

lemma max_from_mem: "max_from b xs \<in> set (b # xs)"
proof (induction xs arbitrary: b)
  case Nil
  show ?case by simp
next
  case (Cons x xs)
  from Cons.IH [of "if snd b < snd x then x else b"]
  have "max_from b (x # xs) \<in> set ((if snd b < snd x then x else b) # xs)" by simp
  then show ?case by (auto split: if_splits)
qed

lemma fired_concerns_names:
  "fst ` set (fired_concerns f c e d we wd) \<subseteq>
     {''high_frustration'', ''high_confusion'', ''low_engagement'', ''low_confidence''}"
  by (auto simp: fired_concerns_def)

lemma identify_numeric_range:
  assumes "score ed ''frustration'' = Some f" and "score ed ''confusion'' = Some c"
    and "score ed ''engagement'' = Some e" and "score ed ''confidence'' = Some d"
  shows "\<exists>concern. identify_primary_concern ed = Inr concern \<and> concern \<in> concern_names"
proof -
  from identify_numeric [OF assms] obtain we wd where
    id: "identify_primary_concern ed =
           Inr (case fired_concerns f c e d we wd of
                  [] \<Rightarrow> if 7 < e \<and> 6 < d \<and> f < 4 then ''optimal_state'' else ''neutral_state''
                | x # xs \<Rightarrow> fst (max_from x xs))" by blast
  show ?thesis
  proof (cases "fired_concerns f c e d we wd")
    case Nil
    with id show ?thesis by (simp add: concern_names_def)
  next
    case (Cons x xs)
    have "max_from x xs \<in> set (fired_concerns f c e d we wd)"
      unfolding Cons by (rule max_from_mem)
    then have "fst (max_from x xs) \<in> fst ` set (fired_concerns f c e d we wd)" by (rule imageI)
    with fired_concerns_names [of f c e d we wd]
    have "fst (max_from x xs) \<in> {''high_frustration'', ''high_confusion'', ''low_engagement'', ''low_confidence''}"
      by (rule subsetD)
    then have "fst (max_from x xs) \<in> concern_names" by (auto simp: concern_names_def)
    with Cons id show ?thesis by simp
  qed
qed

lemma urgency_numeric_range:
  assumes "score ed ''frustration'' = Some f" and "score ed ''confusion'' = Some c"
    and "score ed ''engagement'' = Some e" and "score ed ''confidence'' = Some d"
  shows "\<exists>u. calculate_intervention_urgency ed = Inr u \<and> u \<in> urgency_levels"
  unfolding urgency_numeric [OF assms] by (simp add: urgency_levels_def)

lemma analyze_numeric:
  assumes "score ed ''frustration'' = Some f" and "score ed ''confusion'' = Some c"
    and "score ed ''engagement'' = Some e" and "score ed ''confidence'' = Some d"
  shows "\<exists>r g' t. analyze_intervention_need ed lc g = Inr (r, g')
           \<and> primary_concern r \<in> concern_names
           \<and> urgency_level r \<in> urgency_levels
           \<and> intervention_type r = PyType t"
proof -
  from identify_numeric_range [OF assms] obtain concern where
    c: "identify_primary_concern ed = Inr concern" and cr: "concern \<in> concern_names" by blast
  from urgency_numeric_range [OF assms] obtain u where
    u: "calculate_intervention_urgency ed = Inr u" and ur: "u \<in> urgency_levels" by blast
  from analyze_Inr_I [OF c u, of lc g] obtain r g' t where
    "analyze_intervention_need ed lc g = Inr (r, g')" "primary_concern r = concern"
    "urgency_level r = u" "intervention_type r = PyType t" by blast
  with cr ur show ?thesis by blast
qed

lemma identify_same_entries:
  assumes "map_of ed' ''frustration'' = map_of ed ''frustration''"
    and "map_of ed' ''confusion'' = map_of ed ''confusion''"
    and "map_of ed' ''engagement'' = map_of ed ''engagement''"
    and "map_of ed' ''confidence'' = map_of ed ''confidence''"
  shows "identify_primary_concern ed' = identify_primary_concern ed"
  by (simp add: identify_primary_concern_def dict_get_def dict_getitem_def assms cong: if_cong)

lemma urgency_same_reads:
  assumes "dict_get ed' ''frustration'' (PyInt 5) = dict_get ed ''frustration'' (PyInt 5)"
    and "dict_get ed' ''confusion'' (PyInt 5) = dict_get ed ''confusion'' (PyInt 5)"
    and "dict_get ed' ''engagement'' (PyInt 5) = dict_get ed ''engagement'' (PyInt 5)"
    and "dict_get ed' ''confidence'' (PyInt 5) = dict_get ed ''confidence'' (PyInt 5)"
  shows "calculate_intervention_urgency ed' = calculate_intervention_urgency ed"
  by (simp add: calculate_intervention_urgency_def assms cong: if_cong)

lemma analyze_same:
  assumes "identify_primary_concern ed' = identify_primary_concern ed"
    and "calculate_intervention_urgency ed' = calculate_intervention_urgency ed"
  shows "analyze_intervention_need ed' lc g = analyze_intervention_need ed lc g"
proof -
  have "predict_intervention_outcome ed' iv = predict_intervention_outcome ed iv" for iv
    by (rule predict_type_only) simp
  then show ?thesis
    by (simp add: analyze_intervention_need_def calculate_intervention_timing_def Let_def assms)
qed

lemma dict_get_default_entry:
  "map_of ed k = None \<Longrightarrow> dict_get ((k, PyInt 5) # ed) fld (PyInt 5) = dict_get ed fld (PyInt 5)"
  by (simp add: dict_get_def)

lemma identify_default_entry:
  assumes "map_of ed k = None"
  shows "identify_primary_concern ((k, PyInt 5) # ed) = identify_primary_concern ed"
proof -
  consider "k = ''frustration''" | "k = ''confusion''" | "k = ''engagement''" | "k = ''confidence''"
    | "k \<notin> {''frustration'', ''confusion'', ''engagement'', ''confidence''}" by blast
  then show ?thesis
  proof cases
    case 5
    then show ?thesis by (intro identify_same_entries) auto
  qed (use assms in \<open>simp_all add: identify_primary_concern_def dict_get_def dict_getitem_def
         py_gt_def py_lt_def cong: if_cong\<close>)
qed

lemma analyze_default_entry:
  assumes "map_of ed k = None"
  shows "analyze_intervention_need ((k, PyInt 5) # ed) lc g = analyze_intervention_need ed lc g"
  by (intro analyze_same identify_default_entry urgency_same_reads dict_get_default_entry assms)

text \<open>
  C4. When each of the four compared scores of a mapping is a number or absent,
  \<^verbatim>\<open>analyze_intervention_need\<close> raises nothing, whatever the learning context and
  the random source: it returns a recommendation whose concern is one of the six
  concerns, whose urgency is one of the four levels and whose intervention type is a
  member of the enum, so none of them is \<^verbatim>\<open>None\<close>. A missing field is treated as 5:
  adding an absent key with the value 5 to the mapping changes nothing in the result.
\<close>

theorem analyze_intervention_need_total:
  assumes "score ed ''frustration'' = Some f" and "score ed ''confusion'' = Some c"
    and "score ed ''engagement'' = Some e" and "score ed ''confidence'' = Some d"
  shows "(\<exists>r g' t. analyze_intervention_need ed lc g = Inr (r, g')
            \<and> primary_concern r \<in> {''high_frustration'', ''high_confusion'', ''low_engagement'',
                                    ''low_confidence'', ''optimal_state'', ''neutral_state''}
            \<and> urgency_level r \<in> {''low'', ''medium'', ''high'', ''critical''}
            \<and> intervention_type r = PyType t
            \<and> intervention_type r \<noteq> PyNone)
         \<and> (\<forall>k. map_of ed k = None \<longrightarrow>
                analyze_intervention_need ((k, PyInt 5) # ed) lc g = analyze_intervention_need ed lc g)"
proof (intro conjI allI impI)
  from analyze_numeric [OF assms, of lc g] obtain r g' t where
    "analyze_intervention_need ed lc g = Inr (r, g')" "primary_concern r \<in> concern_names"
    "urgency_level r \<in> urgency_levels" "intervention_type r = PyType t" by blast
  then have "analyze_intervention_need ed lc g = Inr (r, g')
            \<and> primary_concern r \<in> {''high_frustration'', ''high_confusion'', ''low_engagement'',
                                    ''low_confidence'', ''optimal_state'', ''neutral_state''}
            \<and> urgency_level r \<in> {''low'', ''medium'', ''high'', ''critical''}
            \<and> intervention_type r = PyType t
            \<and> intervention_type r \<noteq> PyNone"
    unfolding concern_names_def urgency_levels_def by simp
  then show "\<exists>r g' t. analyze_intervention_need ed lc g = Inr (r, g')
            \<and> primary_concern r \<in> {''high_frustration'', ''high_confusion'', ''low_engagement'',
                                    ''low_confidence'', ''optimal_state'', ''neutral_state''}
            \<and> urgency_level r \<in> {''low'', ''medium'', ''high'', ''critical''}
            \<and> intervention_type r = PyType t
            \<and> intervention_type r \<noteq> PyNone"
    by (intro exI)
next
  fix k
  assume "map_of ed k = None"
  then show "analyze_intervention_need ((k, PyInt 5) # ed) lc g = analyze_intervention_need ed lc g"
    by (rule analyze_default_entry)
qed

theorem analyze_intervention_need_total_witness:
  "score [(''frustration'', PyInt 9)] ''frustration'' = Some 9
   \<and> score [(''frustration'', PyInt 9)] ''confusion'' = Some 5
   \<and> score [(''frustration'', PyInt 9)] ''engagement'' = Some 5
   \<and> score [(''frustration'', PyInt 9)] ''confidence'' = Some 5
   \<and> map_of [(''frustration'', PyInt 9)] ''confusion'' = None
   \<and> (\<exists>r g' t. analyze_intervention_need [(''frustration'', PyInt 9)] None no_draws = Inr (r, g')
            \<and> primary_concern r \<in> {''high_frustration'', ''high_confusion'', ''low_engagement'',
                                    ''low_confidence'', ''optimal_state'', ''neutral_state''}
            \<and> urgency_level r \<in> {''low'', ''medium'', ''high'', ''critical''}
            \<and> intervention_type r = PyType t
            \<and> intervention_type r \<noteq> PyNone)
   \<and> analyze_intervention_need [(''confusion'', PyInt 5), (''frustration'', PyInt 9)] None no_draws
       = analyze_intervention_need [(''frustration'', PyInt 9)] None no_draws"
proof -
  let ?ed = "[(''frustration'', PyInt 9)]"
  have h1: "score ?ed ''frustration'' = Some 9" by (simp add: score_def dict_get_def)
  have h2: "score ?ed ''confusion'' = Some 5" by (simp add: score_def dict_get_def)
  have h3: "score ?ed ''engagement'' = Some 5" by (simp add: score_def dict_get_def)
  have h4: "score ?ed ''confidence'' = Some 5" by (simp add: score_def dict_get_def)
  have m: "map_of ?ed ''confusion'' = None" by simp
  note inst = analyze_intervention_need_total [OF h1 h2 h3 h4, of None no_draws]
  have "analyze_intervention_need ((''confusion'', PyInt 5) # ?ed) None no_draws
       = analyze_intervention_need ?ed None no_draws"
    by (rule inst [THEN conjunct2, rule_format, OF m])
  with inst [THEN conjunct1] h1 h2 h3 h4 m show ?thesis by (intro conjI)
qed

section \<open>Values that are not numbers\<close>

lemma py_gt_not_number:
  "score ed k = None \<Longrightarrow>
     py_gt (dict_get ed k (PyInt 5)) n = Inl (not_supported ''>'' (dict_get ed k (PyInt 5)))"
  by (simp add: score_def py_gt_def)

lemma py_lt_not_number:
  "score ed k = None \<Longrightarrow>
     py_lt (dict_get ed k (PyInt 5)) n = Inl (not_supported ''<'' (dict_get ed k (PyInt 5)))"
  by (simp add: score_def py_lt_def)

lemma identify_error_frustration:
  assumes "score ed ''frustration'' = None"
  shows "identify_primary_concern ed = Inl (not_supported ''>'' (dict_get ed ''frustration'' (PyInt 5)))"
  unfolding identify_primary_concern_def by (simp add: py_gt_not_number [OF assms])

lemma identify_error_confusion:
  assumes f: "score ed ''frustration'' = Some f" and c: "score ed ''confusion'' = None"
  shows "identify_primary_concern ed = Inl (not_supported ''>'' (dict_get ed ''confusion'' (PyInt 5)))"
  unfolding identify_primary_concern_def
  by (cases "7 < f")
     (simp_all add: py_gt_score [OF f] weight_high [OF f] py_gt_not_number [OF c])

lemma identify_error_engagement:
  assumes f: "score ed ''frustration'' = Some f" and c: "score ed ''confusion'' = Some c"
    and e: "score ed ''engagement'' = None"
  shows "identify_primary_concern ed = Inl (not_supported ''<'' (dict_get ed ''engagement'' (PyInt 5)))"
  unfolding identify_primary_concern_def
  by (cases "7 < f"; cases "7 < c")
     (simp_all add: py_gt_score [OF f] weight_high [OF f] py_gt_score [OF c] weight_high [OF c]
        py_lt_not_number [OF e])

lemma identify_error_confidence:
  assumes f: "score ed ''frustration'' = Some f" and c: "score ed ''confusion'' = Some c"
    and e: "score ed ''engagement'' = Some e" and d: "score ed ''confidence'' = None"
  shows "identify_primary_concern ed = Inl (not_supported ''<'' (dict_get ed ''confidence'' (PyInt 5)))"
proof -
  from minus_from_score [OF e] obtain we where
    we: "minus_from 10 (dict_get ed ''engagement'' (PyInt 5)) = Some we" by blast
  note low_e = weight_low [OF e _ we]
  show ?thesis
    unfolding identify_primary_concern_def
    by (cases "7 < f"; cases "7 < c"; cases "e < 4")
       (simp_all add: py_gt_score [OF f] weight_high [OF f] py_gt_score [OF c] weight_high [OF c]
          py_lt_score [OF e] low_e py_lt_not_number [OF d])
qed

lemma analyze_same_entries:
  assumes "map_of ed' ''frustration'' = map_of ed ''frustration''"
    and "map_of ed' ''confusion'' = map_of ed ''confusion''"
    and "map_of ed' ''engagement'' = map_of ed ''engagement''"
    and "map_of ed' ''confidence'' = map_of ed ''confidence''"
  shows "analyze_intervention_need ed' lc g = analyze_intervention_need ed lc g"
proof (rule analyze_same)
  show "identify_primary_concern ed' = identify_primary_concern ed"
    using assms by (rule identify_same_entries)
  show "calculate_intervention_urgency ed' = calculate_intervention_urgency ed"
    by (rule urgency_same_reads) (simp_all add: dict_get_def assms)
qed

text \<open>
  C9, as stated, has every mapping with a non-numeric score rejected with an
  \<open>invalid score type\<close> error. A string under \<open>excitement\<close>, which is a score field,
  is accepted: the call returns a recommendation. A string under \<open>frustration\<close> does make
  the call fail, with the \<^verbatim>\<open>TypeError\<close> that Python raises for the comparison of a
  string with 7 and with that error's message, not with an error that names an invalid
  score type.
\<close>

theorem invalid_score_type_counterexample:
  "\<not> isl (analyze_intervention_need [(''excitement'', PyStr ''abc'')] None no_draws)
   \<and> analyze_intervention_need [(''frustration'', PyStr ''abc'')] None no_draws =
        Inl (TypeError ([CHR 0x27] @ ''>'' @ [CHR 0x27] @ '' not supported between instances of ''
                        @ [CHR 0x27] @ ''str'' @ [CHR 0x27] @ '' and 'int'' @ [CHR 0x27]))
   \<and> analyze_intervention_need [(''frustration'', PyStr ''abc'')] None no_draws \<noteq>
        Inl (TypeError ''invalid score type'')"
proof -
  have s: "score [(''excitement'', PyStr ''abc'')] k = Some 5"
    if "k \<in> {''frustration'', ''confusion'', ''engagement'', ''confidence''}" for k
    using that by (auto simp: score_def dict_get_def)
  have "\<exists>r g' t. analyze_intervention_need [(''excitement'', PyStr ''abc'')] None no_draws = Inr (r, g')
           \<and> primary_concern r \<in> concern_names \<and> urgency_level r \<in> urgency_levels
           \<and> intervention_type r = PyType t"
    by (rule analyze_numeric) (simp_all add: s)
  then have a: "\<not> isl (analyze_intervention_need [(''excitement'', PyStr ''abc'')] None no_draws)"
    by auto
  have "score [(''frustration'', PyStr ''abc'')] ''frustration'' = None"
    by (simp add: score_def dict_get_def)
  then have "identify_primary_concern [(''frustration'', PyStr ''abc'')] =
      Inl (not_supported ''>'' (dict_get [(''frustration'', PyStr ''abc'')] ''frustration'' (PyInt 5)))"
    by (rule identify_error_frustration)
  then have "analyze_intervention_need [(''frustration'', PyStr ''abc'')] None no_draws =
      Inl (not_supported ''>'' (dict_get [(''frustration'', PyStr ''abc'')] ''frustration'' (PyInt 5)))"
    by (rule analyze_Inl_identify)
  then have b: "analyze_intervention_need [(''frustration'', PyStr ''abc'')] None no_draws =
        Inl (TypeError ([CHR 0x27] @ ''>'' @ [CHR 0x27] @ '' not supported between instances of ''
                        @ [CHR 0x27] @ ''str'' @ [CHR 0x27] @ '' and 'int'' @ [CHR 0x27]))"
    by (simp add: dict_get_def not_supported_def)
  from a b show ?thesis by simp
qed

text \<open>
  C9, as the code has it. \<^verbatim>\<open>analyze_intervention_need\<close> validates nothing at its
  boundary. It fails exactly when one of the four compared fields (frustration,
  confusion, engagement, confidence) holds a value that is not a number, and the failure
  is the \<^verbatim>\<open>TypeError\<close> raised inside concern identification by the first comparison
  of the first such field, in the order frustration, confusion, engagement, confidence.
  When the four fields are numbers or absent the call returns a recommendation. The
  value under any other key, a score field such as excitement included, is never
  examined: adding or replacing such an entry changes nothing in the result.
\<close>

theorem analyze_intervention_need_type_error:
  "(score ed ''frustration'' \<noteq> None \<and> score ed ''confusion'' \<noteq> None
      \<and> score ed ''engagement'' \<noteq> None \<and> score ed ''confidence'' \<noteq> None \<longrightarrow>
        (\<exists>r g'. analyze_intervention_need ed lc g = Inr (r, g')))
   \<and> (score ed ''frustration'' = None \<longrightarrow>
        analyze_intervention_need ed lc g =
          Inl (not_supported ''>'' (dict_get ed ''frustration'' (PyInt 5))))
   \<and> (score ed ''frustration'' \<noteq> None \<and> score ed ''confusion'' = None \<longrightarrow>
        analyze_intervention_need ed lc g =
          Inl (not_supported ''>'' (dict_get ed ''confusion'' (PyInt 5))))
   \<and> (score ed ''frustration'' \<noteq> None \<and> score ed ''confusion'' \<noteq> None
      \<and> score ed ''engagement'' = None \<longrightarrow>
        analyze_intervention_need ed lc g =
          Inl (not_supported ''<'' (dict_get ed ''engagement'' (PyInt 5))))
   \<and> (score ed ''frustration'' \<noteq> None \<and> score ed ''confusion'' \<noteq> None
      \<and> score ed ''engagement'' \<noteq> None \<and> score ed ''confidence'' = None \<longrightarrow>
        analyze_intervention_need ed lc g =
          Inl (not_supported ''<'' (dict_get ed ''confidence'' (PyInt 5))))
   \<and> (k \<notin> {''frustration'', ''confusion'', ''engagement'', ''confidence''} \<longrightarrow>
        analyze_intervention_need ((k, v) # ed) lc g = analyze_intervention_need ed lc g)"
proof (intro conjI impI)
  assume "score ed ''frustration'' \<noteq> None \<and> score ed ''confusion'' \<noteq> None
      \<and> score ed ''engagement'' \<noteq> None \<and> score ed ''confidence'' \<noteq> None"
  then obtain f c e d where "score ed ''frustration'' = Some f" "score ed ''confusion'' = Some c"
    "score ed ''engagement'' = Some e" "score ed ''confidence'' = Some d" by auto
  from analyze_numeric [OF this, of lc g]
  show "\<exists>r g'. analyze_intervention_need ed lc g = Inr (r, g')" by blast
next
  assume "score ed ''frustration'' = None"
  then show "analyze_intervention_need ed lc g =
          Inl (not_supported ''>'' (dict_get ed ''frustration'' (PyInt 5)))"
    by (intro analyze_Inl_identify identify_error_frustration)
next
  assume "score ed ''frustration'' \<noteq> None \<and> score ed ''confusion'' = None"
  then obtain f where "score ed ''frustration'' = Some f" "score ed ''confusion'' = None" by auto
  then show "analyze_intervention_need ed lc g =
          Inl (not_supported ''>'' (dict_get ed ''confusion'' (PyInt 5)))"
    by (intro analyze_Inl_identify identify_error_confusion)
next
  assume "score ed ''frustration'' \<noteq> None \<and> score ed ''confusion'' \<noteq> None
      \<and> score ed ''engagement'' = None"
  then obtain f c where "score ed ''frustration'' = Some f" "score ed ''confusion'' = Some c"
    "score ed ''engagement'' = None" by auto
  then show "analyze_intervention_need ed lc g =
          Inl (not_supported ''<'' (dict_get ed ''engagement'' (PyInt 5)))"
    by (intro analyze_Inl_identify identify_error_engagement)
next
  assume "score ed ''frustration'' \<noteq> None \<and> score ed ''confusion'' \<noteq> None
      \<and> score ed ''engagement'' \<noteq> None \<and> score ed ''confidence'' = None"
  then obtain f c e where "score ed ''frustration'' = Some f" "score ed ''confusion'' = Some c"
    "score ed ''engagement'' = Some e" "score ed ''confidence'' = None" by auto
  then show "analyze_intervention_need ed lc g =
          Inl (not_supported ''<'' (dict_get ed ''confidence'' (PyInt 5)))"
    by (intro analyze_Inl_identify identify_error_confidence)
next
  assume "k \<notin> {''frustration'', ''confusion'', ''engagement'', ''confidence''}"
  then show "analyze_intervention_need ((k, v) # ed) lc g = analyze_intervention_need ed lc g"
    by (intro analyze_same_entries) auto
qed

theorem analyze_intervention_need_type_error_witness:
  "score [(''excitement'', PyStr ''abc'')] ''frustration'' \<noteq> None
   \<and> score [(''excitement'', PyStr ''abc'')] ''confusion'' \<noteq> None
   \<and> score [(''excitement'', PyStr ''abc'')] ''engagement'' \<noteq> None
   \<and> score [(''excitement'', PyStr ''abc'')] ''confidence'' \<noteq> None
   \<and> (\<exists>r g'. analyze_intervention_need [(''excitement'', PyStr ''abc'')] None no_draws = Inr (r, g'))
   \<and> score [(''frustration'', PyStr ''abc'')] ''frustration'' = None
   \<and> analyze_intervention_need [(''frustration'', PyStr ''abc'')] None no_draws =
         Inl (not_supported ''>'' (PyStr ''abc''))
   \<and> score [(''confusion'', PyNone)] ''frustration'' \<noteq> None
   \<and> score [(''confusion'', PyNone)] ''confusion'' = None
   \<and> analyze_intervention_need [(''confusion'', PyNone)] None no_draws =
         Inl (not_supported ''>'' PyNone)
   \<and> score [(''engagement'', PyStr ''low'')] ''engagement'' = None
   \<and> analyze_intervention_need [(''engagement'', PyStr ''low'')] None no_draws =
         Inl (not_supported ''<'' (PyStr ''low''))
   \<and> score [(''confidence'', PyType IMMEDIATE)] ''confidence'' = None
   \<and> analyze_intervention_need [(''confidence'', PyType IMMEDIATE)] None no_draws =
         Inl (not_supported ''<'' (PyType IMMEDIATE))
   \<and> ''excitement'' \<notin> {''frustration'', ''confusion'', ''engagement'', ''confidence''}
   \<and> analyze_intervention_need [(''excitement'', PyStr ''abc'')] None no_draws =
         analyze_intervention_need [] None no_draws"
proof -
  note i1 = analyze_intervention_need_type_error
    [of "[(''excitement'', PyStr ''abc'')]" None no_draws "''x''" PyNone, THEN conjunct1]
  note i2 = analyze_intervention_need_type_error
    [of "[(''frustration'', PyStr ''abc'')]" None no_draws "''x''" PyNone,
     THEN conjunct2, THEN conjunct1]
  note i3 = analyze_intervention_need_type_error
    [of "[(''confusion'', PyNone)]" None no_draws "''x''" PyNone,
     THEN conjunct2, THEN conjunct2, THEN conjunct1]
  note i4 = analyze_intervention_need_type_error
    [of "[(''engagement'', PyStr ''low'')]" None no_draws "''x''" PyNone,
     THEN conjunct2, THEN conjunct2, THEN conjunct2, THEN conjunct1]
  note i5 = analyze_intervention_need_type_error
    [of "[(''confidence'', PyType IMMEDIATE)]" None no_draws "''x''" PyNone,
     THEN conjunct2, THEN conjunct2, THEN conjunct2, THEN conjunct2, THEN conjunct1]
  note i6 = analyze_intervention_need_type_error
    [of "[]" None no_draws "''excitement''" "PyStr ''abc''",
     THEN conjunct2, THEN conjunct2, THEN conjunct2, THEN conjunct2, THEN conjunct2]
  have a1: "score [(''excitement'', PyStr ''abc'')] ''frustration'' \<noteq> None
      \<and> score [(''excitement'', PyStr ''abc'')] ''confusion'' \<noteq> None
      \<and> score [(''excitement'', PyStr ''abc'')] ''engagement'' \<noteq> None
      \<and> score [(''excitement'', PyStr ''abc'')] ''confidence'' \<noteq> None"
    by (simp add: score_def dict_get_def)
  have a2: "score [(''frustration'', PyStr ''abc'')] ''frustration'' = None"
    by (simp add: score_def dict_get_def)
  have a3: "score [(''confusion'', PyNone)] ''frustration'' \<noteq> None
      \<and> score [(''confusion'', PyNone)] ''confusion'' = None"
    by (simp add: score_def dict_get_def)
  have a4: "score [(''engagement'', PyStr ''low'')] ''frustration'' \<noteq> None
      \<and> score [(''engagement'', PyStr ''low'')] ''confusion'' \<noteq> None
      \<and> score [(''engagement'', PyStr ''low'')] ''engagement'' = None"
    by (simp add: score_def dict_get_def)
  have a5: "score [(''confidence'', PyType IMMEDIATE)] ''frustration'' \<noteq> None
      \<and> score [(''confidence'', PyType IMMEDIATE)] ''confusion'' \<noteq> None
      \<and> score [(''confidence'', PyType IMMEDIATE)] ''engagement'' \<noteq> None
      \<and> score [(''confidence'', PyType IMMEDIATE)] ''confidence'' = None"
    by (simp add: score_def dict_get_def)
  have a6: "''excitement'' \<notin> {''frustration'', ''confusion'', ''engagement'', ''confidence''}"
    by simp
  have b1: "\<exists>r g'. analyze_intervention_need [(''excitement'', PyStr ''abc'')] None no_draws = Inr (r, g')"
    using i1 a1 by (rule mp)
  have b2: "analyze_intervention_need [(''frustration'', PyStr ''abc'')] None no_draws =
         Inl (not_supported ''>'' (PyStr ''abc''))"
    using i2 [THEN mp, OF a2] by (simp add: dict_get_def)
  have b3: "analyze_intervention_need [(''confusion'', PyNone)] None no_draws =
         Inl (not_supported ''>'' PyNone)"
    using i3 [THEN mp, OF a3] by (simp add: dict_get_def)
  have b4: "analyze_intervention_need [(''engagement'', PyStr ''low'')] None no_draws =
         Inl (not_supported ''<'' (PyStr ''low''))"
    using i4 [THEN mp, OF a4] by (simp add: dict_get_def)
  have b5: "analyze_intervention_need [(''confidence'', PyType IMMEDIATE)] None no_draws =
         Inl (not_supported ''<'' (PyType IMMEDIATE))"
    using i5 [THEN mp, OF a5] by (simp add: dict_get_def)
  have b6: "analyze_intervention_need [(''excitement'', PyStr ''abc'')] None no_draws =
         analyze_intervention_need [] None no_draws"
    using i6 a6 by (rule mp)
  from a1 a2 a3 a4 a5 a6 b1 b2 b3 b4 b5 b6 show ?thesis by (intro conjI) (simp_all only: simp_thms)
qed

end
